theory Spec2Isabelle
  imports Main "HOL-Library.Multiset"
begin

section \<open>JavaScript objects\<close>

text \<open>
  A plain JavaScript object is modelled by the list of its own enumerable properties in
  the order in which \<^verbatim>\<open>Object.keys\<close> enumerates them: first the keys that are array
  indices (canonical decimal numerals below \<open>2^32 - 1\<close>) in ascending numeric order, then
  every other key in the order of creation. Strings are lists of characters; one
  character stands for one code unit.
\<close>

type_synonym 'a obj = "(string \<times> 'a) list"

definition is_digit :: "char \<Rightarrow> bool" where
  "is_digit c = (48 \<le> (of_char c :: int) \<and> (of_char c :: int) \<le> 57)"

definition num_of :: "string \<Rightarrow> int" where
  "num_of s = foldl (\<lambda>n c. 10 * n + (of_char c - 48)) 0 s"

text \<open>The canonical numeric strings that name an array index: \<open>0\<close>, \<open>1\<close>, ..., \<open>4294967294\<close>.\<close>

definition is_array_index :: "string \<Rightarrow> bool" where
  "is_array_index s =
     (s \<noteq> [] \<and> list_all is_digit s \<and> (s = ''0'' \<or> hd s \<noteq> CHR ''0'') \<and>
      num_of s < 4294967295)"

text \<open>
  The properties every plain object inherits from \<^verbatim>\<open>Object.prototype\<close>. Reading one of
  them from an object that has no own property of that name yields a function (for
  \<^verbatim>\<open>__proto__\<close> the prototype object itself): a truthy value.
\<close>

definition object_prototype_names :: "string list" where
  "object_prototype_names =
     [''constructor'', ''__defineGetter__'', ''__defineSetter__'', ''hasOwnProperty'',
      ''__lookupGetter__'', ''__lookupSetter__'', ''isPrototypeOf'',
      ''propertyIsEnumerable'', ''toString'', ''valueOf'', ''__proto__'',
      ''toLocaleString'']"

datatype 'a lookup = Own 'a | Inherited | Undefined

text \<open>The property read \<^verbatim>\<open>o[k]\<close>.\<close>

definition js_get :: "'a obj \<Rightarrow> string \<Rightarrow> 'a lookup" where
  "js_get ps k =
     (case map_of ps k of
        Some v \<Rightarrow> Own v
      | None \<Rightarrow> if k \<in> set object_prototype_names then Inherited else Undefined)"

text \<open>A new own property takes its place in the enumeration order.\<close>

fun insert_index :: "string \<Rightarrow> 'a \<Rightarrow> 'a obj \<Rightarrow> 'a obj" where
  "insert_index k v [] = [(k, v)]"
| "insert_index k v ((k', v') # ps) =
     (if is_array_index k' \<and> num_of k' < num_of k then (k', v') # insert_index k v ps
      else (k, v) # (k', v') # ps)"

definition js_define :: "'a obj \<Rightarrow> string \<Rightarrow> 'a \<Rightarrow> 'a obj" where
  "js_define ps k v =
     (if k \<in> fst ` set ps then map (\<lambda>(k', v'). if k' = k then (k', v) else (k', v')) ps
      else if is_array_index k then insert_index k v ps
      else ps @ [(k, v)])"

text \<open>
  The assignment \<^verbatim>\<open>o[k] = v\<close> on a plain object. An own property is overwritten in
  place. Otherwise the key \<^verbatim>\<open>__proto__\<close> reaches the accessor of \<^verbatim>\<open>Object.prototype\<close>,
  which creates no own property (it replaces the prototype when the value is an object
  or null); every other key becomes a new own property.
\<close>

definition js_assign :: "'a obj \<Rightarrow> string \<Rightarrow> 'a \<Rightarrow> 'a obj" where
  "js_assign ps k v =
     (if k \<notin> fst ` set ps \<and> k = ''__proto__'' then ps else js_define ps k v)"

text \<open>\<^verbatim>\<open>delete o[k]\<close> removes the own property, if there is one.\<close>

definition js_delete :: "'a obj \<Rightarrow> string \<Rightarrow> 'a obj" where
  "js_delete ps k = filter (\<lambda>(k', v'). k' \<noteq> k) ps"

section \<open>Documents\<close>

text \<open>
  A response document is a value of the shape JSON gives: \<open>JNull\<close> also stands for an
  absent document (\<^verbatim>\<open>undefined\<close>), which the code below never tells from \<^verbatim>\<open>null\<close>.
  Numbers are the integers among the JSON numbers. An object lists its own properties
  in enumeration order.
\<close>

datatype jval =
    JNull
  | JBool bool
  | JNum int
  | JStr string
  | JArr "jval list"
  | JObj "(string \<times> jval) list"

text \<open>The test \<^verbatim>\<open>if (v)\<close>: false for null, false, 0 and the empty string.\<close>

fun truthy :: "jval \<Rightarrow> bool" where
  "truthy JNull = False"
| "truthy (JBool b) = b"
| "truthy (JNum n) = (n \<noteq> 0)"
| "truthy (JStr s) = (s \<noteq> [])"
| "truthy (JArr xs) = True"
| "truthy (JObj ps) = True"

datatype error = TypeError string

definition quoted :: "string \<Rightarrow> string" where
  "quoted s = [CHR 0x27] @ s @ [CHR 0x27]"

text \<open>
  The member reads \<^verbatim>\<open>v.log\<close>, \<^verbatim>\<open>v.timestamp\<close> and \<^verbatim>\<open>v.time\<close>: a TypeError on null,
  the own property of an object, and \<^verbatim>\<open>undefined\<close> (\<open>None\<close>) otherwise, since no
  built-in prototype has a member of one of these three names.
\<close>

fun member :: "jval \<Rightarrow> string \<Rightarrow> error + jval option" where
  "member JNull k = Inl (TypeError (''Cannot read properties of null (reading '' @ quoted k @ '')''))"
| "member (JObj ps) k = Inr (map_of ps k)"
| "member v k = Inr None"

text \<open>Decimal numerals, as \<^verbatim>\<open>String(n)\<close> writes a natural number.\<close>

fun dec :: "nat \<Rightarrow> string" where
  "dec n = (if n < 10 then [char_of (48 + n)] else dec (n div 10) @ [char_of (48 + n mod 10)])"

declare dec.simps [simp del]

text \<open>
  \<^verbatim>\<open>Object.keys(v)\<close> with the values under the keys: the members of an object, the
  elements of an array and the characters of a string under their indices, nothing
  for the other primitives.
\<close>

fun own_entries :: "jval \<Rightarrow> jval obj" where
  "own_entries (JObj ps) = ps"
| "own_entries (JArr xs) = zip (map dec [0..<length xs]) xs"
| "own_entries (JStr s) = zip (map dec [0..<length s]) (map (\<lambda>c. JStr [c]) s)"
| "own_entries v = []"

section \<open>Effects\<close>

text \<open>
  What is printed: a plain message, the highlighted yaml text of a document under a
  title, or the text \<^verbatim>\<open>JSON.stringify(v, null, 2)\<close> of a value. The yaml and chalk
  libraries and the JSON printer are not part of the repository, so a text is
  represented by the title and the document handed to \<^verbatim>\<open>yaml.stringify\<close>, or by the
  value handed to \<^verbatim>\<open>JSON.stringify\<close>.
\<close>

datatype rendering = Plain string | Yaml string jval | Json jval

text \<open>
  A request to the remote API: the domain, the API key read from the store
  (\<open>None\<close> when the record read has no such member) and the resource asked for.
\<close>

datatype request =
    DomainInfo string "string option"
  | SessionInfo string string "string option"
  | SubscriberInfo string "string option" "string option"
  | ApplicationInfo string "string option" "string option"
  | TrunkInfo string "string option" "string option"
  | DnidInfo string "string option" "string option"

text \<open>
  What a command does besides computing, in the order in which it happens.
\<close>

datatype effect =
    StoreRead
  | StoreWrite
  | ApiCall request
  | ConsoleLog string
  | ConsoleError string
  | Print rendering
  | ProcessExit nat

text \<open>
  \<^verbatim>\<open>debug(message, data)\<close> of src/unnamed/part_001 prints nothing unless debug mode is
  enabled, which \<^verbatim>\<open>--debug\<close> does before the command runs; the flag of the module is
  an argument here. The display command is modelled in both modes, since what it
  prints is the subject of a property below; the other commands are modelled with
  debug mode off, where their calls of \<^verbatim>\<open>debug\<close> print nothing.
\<close>

definition debug :: "bool \<Rightarrow> string \<Rightarrow> jval option \<Rightarrow> effect list" where
  "debug isDebugEnabled message data =
     (if \<not> isDebugEnabled then []
      else [ConsoleLog ([CHR 0x0A] @ ''=== DEBUG ===''), ConsoleLog message] @
           (case data of
              None \<Rightarrow> []
            | Some v \<Rightarrow> if truthy v then [ConsoleLog ''Data:'', Print (Json v)] else []) @
           [ConsoleLog (''============='' @ [CHR 0x0A])])"

text \<open>
  The options object that the command line front end hands to a command. An option
  with an optional value (\<^verbatim>\<open>--subscriber [id]\<close>) is undefined, \<^verbatim>\<open>true\<close> or a string.
\<close>

datatype flag = Unset | Bare | Given string

record options =
  domain :: "string option"
  apikey :: "string option"
  subscriber :: flag
  application :: flag
  trunk :: flag
  dnid :: flag
  session :: "string option"
  showLogOnly :: bool

text \<open>The test \<^verbatim>\<open>if (!s)\<close> on an option that is undefined or a string.\<close>

definition missing :: "string option \<Rightarrow> bool" where
  "missing s = (s = None \<or> s = Some [])"

section \<open>The configuration store (src/src/utils/config.js)\<close>

text \<open>
  The record kept for a domain is \<^verbatim>\<open>{ apiKey }\<close>; the configuration is an object with
  the member \<^verbatim>\<open>domains\<close>, which a file written by hand may lack. The backing file is
  absent, or reading and parsing it throws an error with a message, or it parses: to
  nothing (an empty file parses to \<^verbatim>\<open>null\<close>) or to a configuration. The yaml library
  is not part of the repository: a file is represented by the document it parses to,
  and what \<^verbatim>\<open>saveConfig\<close> writes parses back to the configuration it was given.
  Creating the directory and writing the file are taken to succeed. Members of the
  configuration other than \<^verbatim>\<open>domains\<close>, which the code never reads, are left out.
\<close>

datatype details = Details (apiKey: string)

record config =
  domains :: "details obj option"

datatype content = Null | Document config

datatype file_state = Absent | Corrupt string | Stored content

definition empty_config :: config where
  "empty_config = \<lparr>domains = Some []\<rparr>"

text \<open>
  The \<^verbatim>\<open>try\<close> block of \<^verbatim>\<open>loadConfig\<close>: \<open>Inl\<close> is the message of the error thrown,
  \<open>Inr None\<close> falls through to the end of the function, \<open>Inr (Some c)\<close> returns \<open>c\<close>.
\<close>

definition read_config_file :: "file_state \<Rightarrow> string + config option" where
  "read_config_file f =
     (case f of
        Absent \<Rightarrow> Inr None
      | Corrupt msg \<Rightarrow> Inl msg
      | Stored Null \<Rightarrow> Inr (Some empty_config)
      | Stored (Document c) \<Rightarrow> Inr (Some c))"

definition loadConfig :: "file_state \<Rightarrow> config \<times> effect list" where
  "loadConfig f =
     (case read_config_file f of
        Inl msg \<Rightarrow>
          (empty_config, [StoreRead, ConsoleError (''Error loading configuration: '' @ msg)])
      | Inr None \<Rightarrow> (empty_config, [StoreRead])
      | Inr (Some c) \<Rightarrow> (c, [StoreRead]))"

definition saveConfig :: "config \<Rightarrow> file_state \<times> effect list" where
  "saveConfig c = (Stored (Document c), [StoreWrite])"

text \<open>
  \<^verbatim>\<open>addDomain\<close> puts an empty mapping where \<^verbatim>\<open>config.domains\<close> is missing, assigns the
  record and saves.
\<close>

definition addDomain :: "string \<Rightarrow> string \<Rightarrow> file_state \<Rightarrow> file_state \<times> effect list" where
  "addDomain d key f =
     (let (config, e1) = loadConfig f;
          ds = (case domains config of None \<Rightarrow> [] | Some ds \<Rightarrow> ds);
          (f', e2) = saveConfig (config\<lparr>domains := Some (js_assign ds d (Details key))\<rparr>)
      in (f', e1 @ e2))"

text \<open>
  The check \<^verbatim>\<open>!config.domains || !config.domains[domain]\<close> of the commands, and the
  API key \<^verbatim>\<open>config.domains[domain].apiKey\<close> they go on with: \<open>None\<close> when the check
  fails, otherwise the key, which is undefined (\<open>Some None\<close>) when what was read is an
  inherited member.
\<close>

definition configured :: "config \<Rightarrow> string \<Rightarrow> string option option" where
  "configured c d =
     (case domains c of
        None \<Rightarrow> None
      | Some ds \<Rightarrow>
          (case js_get ds d of
             Undefined \<Rightarrow> None
           | Inherited \<Rightarrow> Some None
           | Own r \<Rightarrow> Some (Some (apiKey r))))"

text \<open>The domains mapping of the configuration that \<^verbatim>\<open>loadConfig\<close> returns.\<close>

definition loaded_domains :: "file_state \<Rightarrow> details obj" where
  "loaded_domains f = (case domains (fst (loadConfig f)) of None \<Rightarrow> [] | Some ds \<Rightarrow> ds)"

section \<open>The delete command (src/src/commands/delete.js)\<close>

definition deleteDomain :: "options \<Rightarrow> file_state \<Rightarrow> file_state \<times> effect list" where
  "deleteDomain opts f =
     (case domain opts of
        None \<Rightarrow> (f, [ConsoleError ''The --domain option is required'', ProcessExit 1])
      | Some d \<Rightarrow>
          if d = [] then (f, [ConsoleError ''The --domain option is required'', ProcessExit 1])
          else
            (let (config, e1) = loadConfig f in
             case configured config d of
               None \<Rightarrow>
                 (f, e1 @ [ConsoleError (''Domain '' @ quoted d @ '' not found in configuration''),
                           ProcessExit 1])
             | Some _ \<Rightarrow>
                 (let ds = (case domains config of None \<Rightarrow> [] | Some ds \<Rightarrow> ds);
                      (f', e2) = saveConfig (config\<lparr>domains := Some (js_delete ds d)\<rparr>)
                  in (f', e1 @ e2 @
                        [ConsoleLog (''Domain '' @ quoted d @
                                     '' has been removed from configuration'')]))))"

section \<open>The display command (display, in src/src/commands/get.js)\<close>

definition padEnd :: "nat \<Rightarrow> string \<Rightarrow> string" where
  "padEnd n s = s @ replicate (n - length s) CHR '' ''"

text \<open>
  The masked form of an API key, as the loop of \<^verbatim>\<open>display\<close> computes it. The key of a
  record is a string, for which \<^verbatim>\<open>details.apiKey || ''\<close> is the key itself.
\<close>

definition maskedKey :: "string \<Rightarrow> string" where
  "maskedKey key =
     (if length key > 8 then take 4 key @ ''...'' @ drop (length key - 4) key
      else ''********'')"

definition rule_line :: string where
  "rule_line = replicate 56 CHR ''-''"

text \<open>The domains mapping as a value: what \<^verbatim>\<open>debug\<close> is given to print.\<close>

definition domains_json :: "details obj \<Rightarrow> jval" where
  "domains_json ds = JObj (map (\<lambda>(d, r). (d, JObj [(''apiKey'', JStr (apiKey r))])) ds)"

definition display :: "bool \<Rightarrow> file_state \<Rightarrow> file_state \<times> effect list" where
  "display isDebugEnabled f =
     (let e0 = debug isDebugEnabled ''Loading configuration for display'' None;
          (config, e1) = loadConfig f
      in case domains config of
        None \<Rightarrow> (f, e0 @ e1 @ [ConsoleLog ''No domains are currently configured''])
      | Some ds \<Rightarrow>
          if length ds = 0 then (f, e0 @ e1 @ [ConsoleLog ''No domains are currently configured''])
          else
            (f, e0 @ e1 @
              debug isDebugEnabled ''Domains found in configuration'' (Some (domains_json ds)) @
              [ConsoleLog ([CHR 0x0A] @ ''Configured Domains:'' @ [CHR 0x0A]),
               ConsoleLog rule_line,
               ConsoleLog ''Domain                          API Key'',
               ConsoleLog rule_line] @
              map (\<lambda>(d, r). ConsoleLog (padEnd 30 d @ '' '' @ maskedKey (apiKey r))) ds @
              [ConsoleLog rule_line,
               ConsoleLog (''Total domains: '' @ dec (length ds))]))"

section \<open>The get command (src/src/commands/get.js)\<close>

definition formatYaml :: "jval \<Rightarrow> string \<Rightarrow> rendering" where
  "formatYaml data title = (if \<not> truthy data then Plain ''No data available'' else Yaml title data)"

text \<open>
  The remote API is a parameter: a request is answered by a document or fails with the
  message of the error that the accessor throws.
\<close>

type_synonym api = "request \<Rightarrow> string + jval"

text \<open>One branch of \<^verbatim>\<open>getDomain\<close>: the request, then the formatted answer or the error.\<close>

definition fetch_and_print :: "api \<Rightarrow> request \<Rightarrow> string \<Rightarrow> effect list" where
  "fetch_and_print api req title =
     ApiCall req #
     (case api req of
        Inl msg \<Rightarrow> [ConsoleError (''Error getting information: '' @ msg), ProcessExit 1]
      | Inr data \<Rightarrow> [Print (formatYaml data title)])"

text \<open>
  The identifier passed on for an option with an optional value, and the test
  \<^verbatim>\<open>id ? ... : ...\<close> that chooses the title.
\<close>

fun resource_id :: "flag \<Rightarrow> string option" where
  "resource_id (Given s) = Some s"
| "resource_id _ = None"

definition resource_title :: "string \<Rightarrow> string \<Rightarrow> string \<Rightarrow> flag \<Rightarrow> string" where
  "resource_title one every d fl =
     (if missing (resource_id fl) then ''All '' @ every @ '' for Domain '' @ d
      else one @ '' Information for '' @ the (resource_id fl))"

definition resourceOptionsCount :: "options \<Rightarrow> nat" where
  "resourceOptionsCount opts =
     length (filter (\<lambda>option. option \<noteq> Unset)
       [subscriber opts, application opts, trunk opts, dnid opts])"

definition multiple_error :: string where
  "multiple_error = ''Error: Cannot specify multiple resource options '' @
     ''(--subscriber, --application, --trunk, --dnid) simultaneously''"

definition getDomain :: "api \<Rightarrow> options \<Rightarrow> file_state \<Rightarrow> effect list" where
  "getDomain api opts f =
     (if missing (domain opts) then [ConsoleError ''The --domain option is required'', ProcessExit 1]
      else
        (let d = the (domain opts); (config, e1) = loadConfig f in
         case configured config d of
           None \<Rightarrow>
             e1 @ [ConsoleError (''Domain '' @ quoted d @
                     '' not found in configuration. Use '' @ quoted ''cx-cli configure'' @
                     '' to add it.''),
                   ProcessExit 1]
         | Some key \<Rightarrow>
             if resourceOptionsCount opts > 1 then e1 @ [ConsoleError multiple_error, ProcessExit 1]
             else if subscriber opts \<noteq> Unset then
               e1 @ fetch_and_print api (SubscriberInfo d key (resource_id (subscriber opts)))
                      (resource_title ''Subscriber'' ''Subscribers'' d (subscriber opts))
             else if application opts \<noteq> Unset then
               e1 @ fetch_and_print api (ApplicationInfo d key (resource_id (application opts)))
                      (resource_title ''Application'' ''Applications'' d (application opts))
             else if trunk opts \<noteq> Unset then
               e1 @ fetch_and_print api (TrunkInfo d key (resource_id (trunk opts)))
                      (resource_title ''Trunk'' ''Trunks'' d (trunk opts))
             else if dnid opts \<noteq> Unset then
               e1 @ fetch_and_print api (DnidInfo d key (resource_id (dnid opts)))
                      (resource_title ''DNID'' ''DNIDs'' d (dnid opts))
             else
               e1 @ fetch_and_print api (DomainInfo d key) (''Domain Information for '' @ d)))"

section \<open>Dates\<close>

text \<open>
  The \<^verbatim>\<open>Date\<close> of the JavaScript runtime is a parameter. A time value is a number of
  milliseconds since the epoch; \<open>None\<close> is the invalid date, whose time value is NaN.
  \<open>date_parse\<close> is \<^verbatim>\<open>new Date(s).getTime()\<close> for a string, \<open>toISOString\<close> is the method
  of that name on a valid date, and \<open>date_of_object\<close> is \<^verbatim>\<open>new Date(v).getTime()\<close> for
  an array or an object, which the runtime converts to a string first.
\<close>

record js_date =
  date_parse :: "string \<Rightarrow> int option"
  toISOString :: "int \<Rightarrow> string"
  date_of_object :: "jval \<Rightarrow> int option"

text \<open>\<^verbatim>\<open>new Date(v).getTime()\<close>.\<close>

fun new_Date :: "js_date \<Rightarrow> jval \<Rightarrow> int option" where
  "new_Date D JNull = Some 0"
| "new_Date D (JBool b) = Some (if b then 1 else 0)"
| "new_Date D (JNum n) = (if \<bar>n\<bar> \<le> 8640000000000000 then Some n else None)"
| "new_Date D (JStr s) = date_parse D s"
| "new_Date D v = date_of_object D v"

text \<open>The difference of two dates, which is NaN when one of them is invalid.\<close>

fun date_minus :: "int option \<Rightarrow> int option \<Rightarrow> int option" where
  "date_minus (Some a) (Some b) = Some (a - b)"
| "date_minus _ _ = None"

section \<open>The call command (src/src/commands/call.js)\<close>

subsection \<open>Repairing timestamps\<close>

text \<open>
  The three regular expressions of the replacer match a whole string made of digits
  (\<^verbatim>\<open>\d\<close>) and literal characters.
\<close>

datatype pat = Digit | Lit char

fun matches :: "pat list \<Rightarrow> string \<Rightarrow> bool" where
  "matches [] s = (s = [])"
| "matches (p # ps) [] = False"
| "matches (Digit # ps) (c # s) = (is_digit c \<and> matches ps s)"
| "matches (Lit l # ps) (c # s) = (c = l \<and> matches ps s)"

definition hour_pattern :: "pat list" where
  "hour_pattern =
     [Digit, Digit, Digit, Digit, Lit CHR ''-'', Digit, Digit, Lit CHR ''-'', Digit, Digit,
      Lit CHR ''T'', Digit, Digit]"

definition minute_pattern :: "pat list" where
  "minute_pattern = hour_pattern @ [Lit CHR '':'', Digit, Digit]"

definition second_pattern :: "pat list" where
  "second_pattern = minute_pattern @ [Lit CHR '':'', Digit, Digit]"

text \<open>The variable \<^verbatim>\<open>dateString\<close> after the chain of tests.\<close>

definition dateString :: "string \<Rightarrow> string" where
  "dateString v =
     (if matches hour_pattern v then v @ '':00:00.000Z''
      else if matches minute_pattern v then v @ '':00.000Z''
      else if matches second_pattern v then v @ ''.000Z''
      else v)"

definition replacer :: "js_date \<Rightarrow> string \<Rightarrow> jval \<Rightarrow> jval" where
  "replacer D key v =
     (case v of
        JStr s \<Rightarrow>
          if key = ''timestamp'' \<or> key = ''time'' then
            (case date_parse D (dateString s) of
               Some t \<Rightarrow> JStr (toISOString D t)
             | None \<Rightarrow> v)
          else v
      | _ \<Rightarrow> v)"

text \<open>
  \<^verbatim>\<open>JSON.parse(JSON.stringify(v, replacer))\<close>: the replacer sees every value under its
  key, the elements of an array under their indices, and the copy keeps the members of
  an object in their order.
\<close>

fun clone :: "js_date \<Rightarrow> string \<Rightarrow> jval \<Rightarrow> jval"
  and clone_elems :: "js_date \<Rightarrow> nat \<Rightarrow> jval list \<Rightarrow> jval list"
  and clone_members :: "js_date \<Rightarrow> (string \<times> jval) list \<Rightarrow> (string \<times> jval) list" where
  "clone D key (JArr xs) = JArr (clone_elems D 0 xs)"
| "clone D key (JObj ps) = JObj (clone_members D ps)"
| "clone D key JNull = replacer D key JNull"
| "clone D key (JBool b) = replacer D key (JBool b)"
| "clone D key (JNum n) = replacer D key (JNum n)"
| "clone D key (JStr s) = replacer D key (JStr s)"
| "clone_elems D i [] = []"
| "clone_elems D i (x # xs) = clone D (dec i) x # clone_elems D (Suc i) xs"
| "clone_members D [] = []"
| "clone_members D ((k, v) # ps) = (k, clone D k v) # clone_members D ps"

subsection \<open>Sorting by time\<close>

text \<open>
  \<^verbatim>\<open>Array.prototype.sort\<close> with a comparator is stable, and returns the sorted
  arrangement whenever the comparator is consistent. The model is the insertion sort
  with that result; it calls the comparator on every element of an array of two or
  more, treats a NaN like zero, and passes on what the comparator throws. For an
  inconsistent comparator the language leaves the order to the implementation, and
  the order of the model is one of the permitted ones.
\<close>

type_synonym comparator = "jval \<Rightarrow> jval \<Rightarrow> error + int option"

fun positive :: "int option \<Rightarrow> bool" where
  "positive (Some d) = (d > 0)"
| "positive None = False"

fun insort_cmp :: "comparator \<Rightarrow> jval \<Rightarrow> jval list \<Rightarrow> error + jval list" where
  "insort_cmp cmp x [] = Inr [x]"
| "insort_cmp cmp x (y # ys) =
     (case cmp x y of
        Inl e \<Rightarrow> Inl e
      | Inr d \<Rightarrow>
          if positive d then
            (case insort_cmp cmp x ys of Inl e \<Rightarrow> Inl e | Inr zs \<Rightarrow> Inr (y # zs))
          else Inr (x # y # ys))"

fun js_sort :: "comparator \<Rightarrow> jval list \<Rightarrow> error + jval list" where
  "js_sort cmp [] = Inr []"
| "js_sort cmp (x # xs) =
     (case js_sort cmp xs of Inl e \<Rightarrow> Inl e | Inr ys \<Rightarrow> insort_cmp cmp x ys)"

text \<open>The operator \<^verbatim>\<open>||\<close> with a left operand that may be undefined.\<close>

definition or_else :: "jval option \<Rightarrow> jval \<Rightarrow> jval" where
  "or_else a b = (case a of Some v \<Rightarrow> if truthy v then v else b | None \<Rightarrow> b)"

text \<open>\<^verbatim>\<open>a.timestamp || 0\<close> and \<^verbatim>\<open>a.timestamp || a.time || 0\<close>.\<close>

definition event_time :: "jval \<Rightarrow> error + jval" where
  "event_time a =
     (case member a ''timestamp'' of Inl e \<Rightarrow> Inl e | Inr t \<Rightarrow> Inr (or_else t (JNum 0)))"

definition log_time :: "jval \<Rightarrow> error + jval" where
  "log_time a =
     (case member a ''timestamp'' of
        Inl e \<Rightarrow> Inl e
      | Inr t \<Rightarrow>
          (case member a ''time'' of
             Inl e \<Rightarrow> Inl e
           | Inr u \<Rightarrow> Inr (or_else t (or_else u (JNum 0)))))"

text \<open>The two comparators: the difference of the dates made of the two times.\<close>

definition compare_by :: "js_date \<Rightarrow> (jval \<Rightarrow> error + jval) \<Rightarrow> comparator" where
  "compare_by D time a b =
     (case time a of
        Inl e \<Rightarrow> Inl e
      | Inr ta \<Rightarrow>
          (case time b of
             Inl e \<Rightarrow> Inl e
           | Inr tb \<Rightarrow> Inr (date_minus (new_Date D ta) (new_Date D tb))))"

subsection \<open>Reorganizing a document\<close>

definition is_complex :: "jval \<Rightarrow> bool" where
  "is_complex v = (case v of JArr xs \<Rightarrow> True | JObj ps \<Rightarrow> length ps > 0 | _ \<Rightarrow> False)"

text \<open>
  The first pass over \<^verbatim>\<open>Object.keys(sessionForYaml)\<close>. \<^verbatim>\<open>complexKeys\<close> collects the
  complex keys; the second pass reads the value of each again, so the model keeps the
  value beside the key.
\<close>

fun first_pass ::
  "jval obj \<Rightarrow> jval obj \<times> (string \<times> jval) list \<Rightarrow> jval obj \<times> (string \<times> jval) list" where
  "first_pass [] (reorganized, complexKeys) = (reorganized, complexKeys)"
| "first_pass ((key, v) # rest) (reorganized, complexKeys) =
     (if is_complex v then first_pass rest (reorganized, complexKeys @ [(key, v)])
      else first_pass rest (js_assign reorganized key v, complexKeys))"

text \<open>
  \<^verbatim>\<open>if (Array.isArray(reorganized[key])) reorganized[key].sort(cmp)\<close>: the array is
  sorted in place, so the member keeps its position.
\<close>

definition sort_member :: "comparator \<Rightarrow> jval obj \<Rightarrow> string \<Rightarrow> error + jval obj" where
  "sort_member cmp r key =
     (case js_get r key of
        Own (JArr xs) \<Rightarrow>
          (case js_sort cmp xs of Inl e \<Rightarrow> Inl e | Inr ys \<Rightarrow> Inr (js_define r key (JArr ys)))
      | _ \<Rightarrow> Inr r)"

definition place :: "js_date \<Rightarrow> jval obj \<Rightarrow> string \<times> jval \<Rightarrow> error + jval obj" where
  "place D r kv =
     (let key = fst kv; r1 = js_assign r key (snd kv) in
      case (if key = ''events'' then sort_member (compare_by D event_time) r1 key else Inr r1) of
        Inl e \<Rightarrow> Inl e
      | Inr r2 \<Rightarrow> if key = ''log'' then sort_member (compare_by D log_time) r2 key else Inr r2)"

fun second_pass :: "js_date \<Rightarrow> jval obj \<Rightarrow> (string \<times> jval) list \<Rightarrow> error + jval obj" where
  "second_pass D r [] = Inr r"
| "second_pass D r (kv # rest) =
     (case place D r kv of Inl e \<Rightarrow> Inl e | Inr r' \<Rightarrow> second_pass D r' rest)"

definition reorganize :: "js_date \<Rightarrow> jval \<Rightarrow> error + jval obj" where
  "reorganize D sessionForYaml =
     (let (reorganized, complexKeys) = first_pass (own_entries sessionForYaml) ([], [])
      in second_pass D reorganized complexKeys)"

subsection \<open>Formatting and the command\<close>

definition session_title :: string where
  "session_title = [CHR 0x0A] @ ''=== Call Session Information ==='' @ [CHR 0x0A, CHR 0x0A]"

definition log_title :: string where
  "log_title = [CHR 0x0A] @ ''=== Call Session Log ==='' @ [CHR 0x0A, CHR 0x0A]"

text \<open>The test \<^verbatim>\<open>if (v.log)\<close> on a value that is not null.\<close>

definition has_log :: "jval \<Rightarrow> bool" where
  "has_log v = (case member v ''log'' of Inr (Some l) \<Rightarrow> truthy l | _ \<Rightarrow> False)"

definition formatSessionYaml :: "js_date \<Rightarrow> jval \<Rightarrow> error + rendering" where
  "formatSessionYaml D sessionInfo =
     (if \<not> truthy sessionInfo then Inr (Plain ''No session information available'')
      else
        (let titleText =
               (if length (own_entries sessionInfo) = 1 \<and> has_log sessionInfo then log_title
                else session_title)
         in case reorganize D (clone D [] sessionInfo) of
              Inl e \<Rightarrow> Inl e
            | Inr reorganized \<Rightarrow> Inr (Yaml titleText (JObj reorganized))))"

definition message :: "error \<Rightarrow> string" where
  "message e = (case e of TypeError m \<Rightarrow> m)"

definition log_warning :: string where
  "log_warning = ''Warning: No log object found in the session data''"

text \<open>The end of \<^verbatim>\<open>getCallInfo\<close>: format and print, or report what was thrown.\<close>

definition print_session :: "js_date \<Rightarrow> jval \<Rightarrow> effect list" where
  "print_session D dataToDisplay =
     (case formatSessionYaml D dataToDisplay of
        Inl e \<Rightarrow> [ConsoleError (''Error getting session information: '' @ message e), ProcessExit 1]
      | Inr yamlOutput \<Rightarrow> [Print yamlOutput])"

definition getCallInfo :: "js_date \<Rightarrow> api \<Rightarrow> options \<Rightarrow> file_state \<Rightarrow> effect list" where
  "getCallInfo D api opts f =
     (if missing (domain opts) then [ConsoleError ''The --domain option is required'', ProcessExit 1]
      else if missing (session opts) then
        [ConsoleError ''The --session option is required'', ProcessExit 1]
      else
        (let d = the (domain opts); (config, e1) = loadConfig f in
         case configured config d of
           None \<Rightarrow>
             e1 @ [ConsoleError (''Domain '' @ quoted d @
                     '' not found in configuration. Use '' @ quoted ''cx-cli configure'' @
                     '' to add it.''),
                   ProcessExit 1]
         | Some key \<Rightarrow>
             e1 @ ApiCall (SessionInfo d (the (session opts)) key) #
             (case api (SessionInfo d (the (session opts)) key) of
                Inl msg \<Rightarrow>
                  [ConsoleError (''Error getting session information: '' @ msg), ProcessExit 1]
              | Inr sessionInfo \<Rightarrow>
                  if showLogOnly opts then
                    (case member sessionInfo ''log'' of
                       Inl e \<Rightarrow>
                         [ConsoleError (''Error getting session information: '' @ message e),
                          ProcessExit 1]
                     | Inr None \<Rightarrow> ConsoleLog log_warning # print_session D sessionInfo
                     | Inr (Some l) \<Rightarrow>
                         if truthy l then print_session D (JObj [(''log'', l)])
                         else ConsoleLog log_warning # print_session D sessionInfo)
                  else print_session D sessionInfo)))"

section \<open>A runtime for the examples\<close>

text \<open>
  A \<^verbatim>\<open>Date\<close> for the examples. It reads the instants of the date-time string format in
  universal time, with or without milliseconds and with every field in its calendar
  range, and nothing else; a runtime reads more strings than these. It writes a time
  value as \<^verbatim>\<open>toISOString\<close> does.
\<close>

definition days_from_civil :: "int \<Rightarrow> int \<Rightarrow> int \<Rightarrow> int" where
  "days_from_civil y m d =
     (let y' = (if m \<le> 2 then y - 1 else y);
          era = y' div 400;
          yoe = y' - era * 400;
          doy = (153 * (if m > 2 then m - 3 else m + 9) + 2) div 5 + d - 1;
          doe = yoe * 365 + yoe div 4 - yoe div 100 + doy
      in era * 146097 + doe - 719468)"

definition civil_from_days :: "int \<Rightarrow> int \<times> int \<times> int" where
  "civil_from_days z =
     (let z' = z + 719468;
          era = z' div 146097;
          doe = z' - era * 146097;
          yoe = (doe - doe div 1460 + doe div 36524 - doe div 146096) div 365;
          doy = doe - (365 * yoe + yoe div 4 - yoe div 100);
          mp = (5 * doy + 2) div 153;
          d = doy - (153 * mp + 2) div 5 + 1;
          m = (if mp < 10 then mp + 3 else mp - 9);
          y = yoe + era * 400
      in (if m \<le> 2 then y + 1 else y, m, d))"

definition days_in_month :: "int \<Rightarrow> int \<Rightarrow> int" where
  "days_in_month y m =
     (if m = 2 then (if y mod 4 = 0 \<and> (y mod 400 = 0 \<or> y mod 100 \<noteq> 0) then 29 else 28)
      else if m = 4 \<or> m = 6 \<or> m = 9 \<or> m = 11 then 30 else 31)"

definition field :: "nat \<Rightarrow> nat \<Rightarrow> string \<Rightarrow> int" where
  "field i n s = num_of (take n (drop i s))"

definition instant_pattern :: "pat list" where
  "instant_pattern = second_pattern @ [Lit CHR ''Z'']"

definition instant_ms_pattern :: "pat list" where
  "instant_ms_pattern = second_pattern @ [Lit CHR ''.'', Digit, Digit, Digit, Lit CHR ''Z'']"

definition iso_parse :: "string \<Rightarrow> int option" where
  "iso_parse s =
     (if matches instant_pattern s \<or> matches instant_ms_pattern s then
        (let y = field 0 4 s; m = field 5 2 s; d = field 8 2 s;
             h = field 11 2 s; mi = field 14 2 s; se = field 17 2 s;
             ms = (if matches instant_ms_pattern s then field 20 3 s else 0)
         in if 1 \<le> m \<and> m \<le> 12 \<and> 1 \<le> d \<and> d \<le> days_in_month y m \<and>
               h \<le> 23 \<and> mi \<le> 59 \<and> se \<le> 59
            then Some (days_from_civil y m d * 86400000 + h * 3600000 + mi * 60000 +
                       se * 1000 + ms)
            else None)
      else None)"

definition pad :: "nat \<Rightarrow> int \<Rightarrow> string" where
  "pad n k = replicate (n - length (dec (nat k))) CHR ''0'' @ dec (nat k)"

definition iso_format :: "int \<Rightarrow> string" where
  "iso_format t =
     (let days = t div 86400000; r = t mod 86400000;
          (y, m, d) = civil_from_days days;
          year = (if 0 \<le> y \<and> y \<le> 9999 then pad 4 y
                  else (if y < 0 then ''-'' else ''+'') @ pad 6 \<bar>y\<bar>)
      in year @ ''-'' @ pad 2 m @ ''-'' @ pad 2 d @ ''T'' @ pad 2 (r div 3600000) @ '':'' @
         pad 2 (r mod 3600000 div 60000) @ '':'' @ pad 2 (r mod 60000 div 1000) @ ''.'' @
         pad 3 (r mod 1000) @ ''Z'')"

definition iso_date :: js_date where
  "iso_date = \<lparr>date_parse = iso_parse, toISOString = iso_format, date_of_object = (\<lambda>v. None)\<rparr>"

section \<open>Notions used in the properties\<close>

text \<open>
  The time by which an entry is sorted (\<open>None\<close> when the entry is null or its date is
  invalid), the arrays whose entries all have one, and the value that the second pass
  leaves under a key.
\<close>

definition time_value :: "js_date \<Rightarrow> (jval \<Rightarrow> error + jval) \<Rightarrow> jval \<Rightarrow> int option" where
  "time_value D time e = (case time e of Inl err \<Rightarrow> None | Inr t \<Rightarrow> new_Date D t)"

definition by_time :: "js_date \<Rightarrow> (jval \<Rightarrow> error + jval) \<Rightarrow> jval \<Rightarrow> int" where
  "by_time D time e = the (time_value D time e)"

definition timed :: "js_date \<Rightarrow> (jval \<Rightarrow> error + jval) \<Rightarrow> jval option \<Rightarrow> bool" where
  "timed D time v =
     (case v of Some (JArr xs) \<Rightarrow> list_all (\<lambda>e. time_value D time e \<noteq> None) xs | _ \<Rightarrow> True)"

definition settled :: "js_date \<Rightarrow> string \<Rightarrow> jval \<Rightarrow> jval" where
  "settled D key v =
     (case v of
        JArr xs \<Rightarrow>
          if key = ''events'' then JArr (sort_key (by_time D event_time) xs)
          else if key = ''log'' then JArr (sort_key (by_time D log_time) xs)
          else v
      | _ \<Rightarrow> v)"

text \<open>A sequence of assignments, and the two groups of entries of the first pass.\<close>

definition assign_all :: "jval obj \<Rightarrow> (string \<times> jval) list \<Rightarrow> jval obj" where
  "assign_all r kvs = foldl (\<lambda>r kv. js_assign r (fst kv) (snd kv)) r kvs"

definition simple_entries :: "jval obj \<Rightarrow> jval obj" where
  "simple_entries ps = filter (\<lambda>kv. \<not> is_complex (snd kv)) ps"

definition complex_entries :: "jval obj \<Rightarrow> jval obj" where
  "complex_entries ps = filter (\<lambda>kv. is_complex (snd kv)) ps"

text \<open>A key that an assignment appends to the enumeration order.\<close>

definition plain_key :: "string \<Rightarrow> bool" where
  "plain_key k = (\<not> is_array_index k \<and> k \<noteq> ''__proto__'')"

text \<open>
  A place in a document is reached by a path of member names and array indices.
  \<open>value_at\<close> reads the value at a path, and \<open>key_of\<close> is the key under which
  \<^verbatim>\<open>JSON.stringify\<close> hands that value to the replacer: the last member name, the
  decimal index of an array element, and the key of the start for the empty path.
\<close>

datatype step = Key string | Index nat

fun value_at :: "jval \<Rightarrow> step list \<Rightarrow> jval option" where
  "value_at v [] = Some v"
| "value_at (JObj ps) (Key k # p) = (case map_of ps k of None \<Rightarrow> None | Some x \<Rightarrow> value_at x p)"
| "value_at (JArr xs) (Index i # p) = (if i < length xs then value_at (xs ! i) p else None)"
| "value_at v (s # p) = None"

definition key_of :: "string \<Rightarrow> step list \<Rightarrow> string" where
  "key_of k0 p = (if p = [] then k0 else case last p of Key k \<Rightarrow> k | Index i \<Rightarrow> dec i)"

text \<open>The string that the replacer returns for a string under \<^verbatim>\<open>timestamp\<close> or \<^verbatim>\<open>time\<close>.\<close>

definition repaired :: "js_date \<Rightarrow> string \<Rightarrow> string" where
  "repaired D s = (case date_parse D (dateString s) of Some t \<Rightarrow> toISOString D t | None \<Rightarrow> s)"

text \<open>A member that \<^verbatim>\<open>||\<close> passes over: it is missing, or its value is null, false, 0 or the empty string.\<close>

definition unset :: "jval option \<Rightarrow> bool" where
  "unset v = (case v of None \<Rightarrow> True | Some t \<Rightarrow> \<not> truthy t)"

section \<open>Concrete inputs\<close>

text \<open>The options, the store and the API of the examples below.\<close>

definition no_options :: options where
  "no_options = \<lparr>domain = None, apikey = None, subscriber = Unset, application = Unset,
     trunk = Unset, dnid = Unset, session = None, showLogOnly = False\<rparr>"

definition example_store :: file_state where
  "example_store =
     Stored (Document \<lparr>domains = Some [(''example.com'', Details ''abcd1234wxyz'')]\<rparr>)"

definition unreachable :: api where
  "unreachable req = Inl ''Network Error: Unable to reach Cloudonix API''"

definition sorted_events :: jval where
  "sorted_events = JArr [JObj [(''timestamp'', JStr ''2025-01-01T00:00:00.000Z'')],
                         JObj [(''timestamp'', JStr ''2025-01-02T00:00:00.000Z'')]]"

definition unsorted_events :: jval where
  "unsorted_events = JArr [JObj [(''timestamp'', JStr ''2025-01-02T00:00:00.000Z'')],
                           JObj [(''timestamp'', JStr ''2025-01-01T00:00:00.000Z'')]]"

definition null_log_session :: jval where
  "null_log_session = JObj [(''id'', JNum 7), (''log'', JNull)]"

definition null_log_api :: api where
  "null_log_api req = Inr null_log_session"

definition logged_session :: jval where
  "logged_session =
     JObj [(''id'', JNum 7),
           (''log'', JArr [JObj [(''time'', JStr ''2025-04-01T03'')],
                           JObj [(''timestamp'', JStr ''2025-04-01T02'')]])]"

definition logged_api :: api where
  "logged_api req = Inr logged_session"

definition log_options :: options where
  "log_options = no_options\<lparr>domain := Some ''example.com'', session := Some ''s1'',
     showLogOnly := True\<rparr>"

text \<open>A session with timestamps inside an array and a nested object, and two log entries.\<close>

definition nested_session :: jval where
  "nested_session =
     JObj [(''id'', JStr ''2025-04-01T02''),
           (''events'',
            JArr [JObj [(''timestamp'', JStr ''2025-04-01T02''),
                        (''detail'', JObj [(''time'', JStr ''2025-04-01T02:15'')])]])]"

definition zero_stamped :: jval where
  "zero_stamped = JObj [(''timestamp'', JNum 0), (''time'', JStr ''2025-01-02T00:00:00.000Z'')]"

definition stamped :: jval where
  "stamped = JObj [(''timestamp'', JStr ''2025-01-01T00:00:00.000Z'')]"

section \<open>Properties of objects\<close>

lemma map_of_insert_index:
  "k \<notin> fst ` set ps \<Longrightarrow> map_of (insert_index k v ps) = (map_of ps)(k \<mapsto> v)"
  by (induction ps) (auto simp: fun_upd_twist)

lemma map_of_overwrite:
  "map_of (map (\<lambda>(k', v'). if k' = k then (k', v) else (k', v')) ps) x =
   (if x = k then map_option (\<lambda>_. v) (map_of ps k) else map_of ps x)"
  by (induction ps) auto

lemma map_of_js_define: "map_of (js_define ps k v) = (map_of ps)(k \<mapsto> v)"
proof (cases "k \<in> fst ` set ps")
  case True
  then obtain y where "map_of ps k = Some y"
    by (meson map_of_eq_None_iff not_None_eq)
  then show ?thesis
    using True by (auto simp: js_define_def map_of_overwrite)
next
  case False
  then have none: "map_of ps k = None"
    by (simp add: map_of_eq_None_iff)
  have "map_of (ps @ [(k, v)]) = (map_of ps)(k \<mapsto> v)"
    using none by (auto simp: map_add_def split: option.splits)
  then show ?thesis
    using False map_of_insert_index [OF False, of v]
    by (cases "is_array_index k") (simp_all only: js_define_def if_False if_True)
qed

lemma map_of_js_assign:
  "k \<noteq> ''__proto__'' \<or> k \<in> fst ` set ps \<Longrightarrow>
   map_of (js_assign ps k v) = (map_of ps)(k \<mapsto> v)"
  unfolding js_assign_def by (auto simp: map_of_js_define)

lemma map_of_js_delete: "map_of (js_delete ps k) = (map_of ps)(k := None)"
  unfolding js_delete_def by (induction ps) auto

lemma keys_js_define: "fst ` set (js_define r k v) = insert k (fst ` set r)"
proof -
  have "dom (map_of (js_define r k v)) = insert k (dom (map_of r))"
    by (simp add: map_of_js_define)
  then show ?thesis by (simp add: dom_map_of_conv_image_fst)
qed

lemma overwrite_absent:
  "k \<notin> fst ` set r \<Longrightarrow> map (\<lambda>(k', v'). if k' = k then (k', v) else (k', v')) r = r"
  by (induction r) auto

lemma overwrite_insert_index:
  "k \<notin> fst ` set r \<Longrightarrow>
   map (\<lambda>(k', v'). if k' = k then (k', w) else (k', v')) (insert_index k v r) = insert_index k w r"
  by (induction r) (auto simp: overwrite_absent)

lemma js_define_twice: "js_define (js_define r k v) k w = js_define r k w"
proof (cases "k \<in> fst ` set r")
  case True
  then have "k \<in> fst ` set (js_define r k v)" by (simp add: keys_js_define)
  then have "js_define (js_define r k v) k w =
      map (\<lambda>(k', v'). if k' = k then (k', w) else (k', v')) (js_define r k v)"
    by (simp add: js_define_def)
  also have "\<dots> = map (\<lambda>(k', v'). if k' = k then (k', w) else (k', v')) r"
    using True by (simp add: js_define_def comp_def case_prod_beta)
  finally show ?thesis using True by (simp add: js_define_def)
next
  case False
  have "k \<in> fst ` set (js_define r k v)" by (simp add: keys_js_define)
  then have "js_define (js_define r k v) k w =
      map (\<lambda>(k', v'). if k' = k then (k', w) else (k', v')) (js_define r k v)"
    by (simp add: js_define_def)
  also have "\<dots> = js_define r k w"
    using False by (simp add: js_define_def overwrite_insert_index overwrite_absent)
  finally show ?thesis .
qed

lemma js_get_js_define: "js_get (js_define r k v) k = Own v"
  by (simp add: js_get_def map_of_js_define)

lemma map_of_js_assign_other: "k \<noteq> k' \<Longrightarrow> map_of (js_assign r k' v) k = map_of r k"
  by (simp add: js_assign_def map_of_js_define)

lemma keys_assign_plain:
  assumes "plain_key k" "k \<notin> fst ` set r"
  shows "map fst (js_assign r k v) = map fst r @ [k]"
  using assms by (simp add: plain_key_def js_assign_def js_define_def)

section \<open>Properties of the configuration store\<close>

lemma addDomain_file:
  "fst (addDomain d key f) =
   Stored (Document ((fst (loadConfig f))
     \<lparr>domains := Some (js_assign (loaded_domains f) d (Details key))\<rparr>))"
  by (simp add: addDomain_def loaded_domains_def saveConfig_def split: prod.splits)

lemma loaded_domains_addDomain:
  "loaded_domains (fst (addDomain d key f)) = js_assign (loaded_domains f) d (Details key)"
  by (simp add: addDomain_file loaded_domains_def loadConfig_def read_config_file_def)

text \<open>
  For every name but \<^verbatim>\<open>__proto__\<close>, and every backing file of the kinds described
  above (absent, unreadable, empty, or a configuration whose records have the shape
  \<^verbatim>\<open>{ apiKey }\<close>): after \<^verbatim>\<open>addDomain\<close>, \<^verbatim>\<open>loadConfig\<close> returns a configuration that has a
  domains mapping, in which the name holds the record with the key given and every
  other name holds what it held before; a second \<^verbatim>\<open>addDomain\<close> with the same name and
  another key replaces the key of that record and leaves every other entry as it was.
\<close>

lemma addDomain_other_names:
  assumes "d \<noteq> ''__proto__''"
  shows "domains (fst (loadConfig (fst (addDomain d key f)))) =
           Some (loaded_domains (fst (addDomain d key f))) \<and>
         map_of (loaded_domains (fst (addDomain d key f))) =
           (map_of (loaded_domains f))(d \<mapsto> Details key) \<and>
         map_of (loaded_domains (fst (addDomain d key' (fst (addDomain d key f))))) =
           (map_of (loaded_domains (fst (addDomain d key f))))(d \<mapsto> Details key')"
proof -
  have "domains (fst (loadConfig (fst (addDomain d key f)))) =
          Some (loaded_domains (fst (addDomain d key f)))"
    by (simp add: addDomain_file loaded_domains_def loadConfig_def read_config_file_def)
  moreover have "map_of (loaded_domains (fst (addDomain d k g))) =
      (map_of (loaded_domains g))(d \<mapsto> Details k)" for k g
    using assms by (simp add: loaded_domains_addDomain map_of_js_assign)
  ultimately show ?thesis by simp
qed

lemma addDomain_example:
  "map_of (loaded_domains (fst (addDomain ''example.com'' ''key-1''
     (Stored (Document \<lparr>domains = Some [(''other.net'', Details ''key-0'')]\<rparr>))))) =
     [''other.net'' \<mapsto> Details ''key-0'', ''example.com'' \<mapsto> Details ''key-1''] \<and>
   map_of (loaded_domains (fst (addDomain ''example.com'' ''key-2''
     (fst (addDomain ''example.com'' ''key-1''
       (Stored (Document \<lparr>domains = Some [(''other.net'', Details ''key-0'')]\<rparr>))))))) =
     [''other.net'' \<mapsto> Details ''key-0'', ''example.com'' \<mapsto> Details ''key-2'']"
  using addDomain_other_names [of "''example.com''" "''key-1''"
      "Stored (Document \<lparr>domains = Some [(''other.net'', Details ''key-0'')]\<rparr>)" "''key-2''"]
  by (simp add: loaded_domains_def loadConfig_def read_config_file_def)

text \<open>
  Claim C1. After \<^verbatim>\<open>addDomain(d, key)\<close>, \<^verbatim>\<open>loadConfig\<close> is to return a domains mapping
  that holds the record \<^verbatim>\<open>{ apiKey: key }\<close> under \<open>d\<close>, for every name \<open>d\<close>. By the lemma
  above the code does so for every name but one. The assignment
  \<^verbatim>\<open>config.domains[domain] = { apiKey }\<close> with the name \<^verbatim>\<open>__proto__\<close> reaches the accessor
  of \<^verbatim>\<open>Object.prototype\<close> and creates no own property: \<^verbatim>\<open>addDomain\<close> writes the file,
  and the mapping that \<^verbatim>\<open>loadConfig\<close> returns afterwards holds no record.
\<close>

theorem addDomain_proto_name:
  "addDomain ''__proto__'' ''key-1'' Absent =
     (Stored (Document \<lparr>domains = Some []\<rparr>), [StoreRead, StoreWrite]) \<and>
   domains (fst (loadConfig (fst (addDomain ''__proto__'' ''key-1'' Absent)))) = Some [] \<and>
   map_of (loaded_domains (fst (addDomain ''__proto__'' ''key-1'' Absent))) ''__proto__'' = None"
  by (simp add: addDomain_def loaded_domains_def loadConfig_def read_config_file_def
      empty_config_def saveConfig_def js_assign_def)

text \<open>
  Claim C4. When the backing file is absent, when it is empty, and when reading or
  parsing it throws, \<^verbatim>\<open>loadConfig\<close> returns the configuration with an empty domains
  mapping; the error thrown is caught and logged, and the function returns.
\<close>

theorem loadConfig_degrades:
  "loadConfig Absent = (\<lparr>domains = Some []\<rparr>, [StoreRead]) \<and>
   loadConfig (Stored Null) = (\<lparr>domains = Some []\<rparr>, [StoreRead]) \<and>
   loadConfig (Corrupt msg) =
     (\<lparr>domains = Some []\<rparr>, [StoreRead, ConsoleError (''Error loading configuration: '' @ msg)])"
  by (simp add: loadConfig_def read_config_file_def empty_config_def)

theorem loadConfig_degrades_witness:
  "fst (loadConfig (Corrupt ''bad indentation'')) = \<lparr>domains = Some []\<rparr> \<and>
   snd (loadConfig (Corrupt ''bad indentation'')) =
     [StoreRead, ConsoleError ''Error loading configuration: bad indentation'']"
  using loadConfig_degrades [of "''bad indentation''"] by simp

lemma loadConfig_effects:
  "\<exists>es. snd (loadConfig f) = StoreRead # es \<and> StoreWrite \<notin> set es \<and>
        (\<forall>r. ApiCall r \<notin> set es)"
  by (auto simp: loadConfig_def split: sum.splits option.splits)

section \<open>Properties of the delete command\<close>

lemma configured_iff:
  "configured c d = None \<longleftrightarrow>
   (domains c = None \<or> (map_of (the (domains c)) d = None \<and> d \<notin> set object_prototype_names))"
  by (auto simp: configured_def js_get_def split: option.splits lookup.splits)

lemma deleteDomain_not_found:
  assumes "domain opts = Some d" "d \<noteq> []"
    and "map_of (loaded_domains f) d = None" "d \<notin> set object_prototype_names"
  shows "deleteDomain opts f =
     (f, snd (loadConfig f) @
         [ConsoleError (''Domain '' @ quoted d @ '' not found in configuration''), ProcessExit 1])"
proof -
  have "configured (fst (loadConfig f)) d = None"
    using assms(3,4) by (auto simp: configured_iff loaded_domains_def split: option.splits)
  then show ?thesis
    using assms(1,2) by (cases "loadConfig f") (simp add: deleteDomain_def)
qed

lemma deleteDomain_found:
  assumes "domain opts = Some d" "d \<noteq> []"
    and "domains (fst (loadConfig f)) = Some ds" "map_of ds d = Some r"
  shows "deleteDomain opts f =
     (Stored (Document ((fst (loadConfig f))\<lparr>domains := Some (js_delete ds d)\<rparr>)),
      snd (loadConfig f) @ [StoreWrite,
        ConsoleLog (''Domain '' @ quoted d @ '' has been removed from configuration'')])"
proof -
  have "configured (fst (loadConfig f)) d = Some (Some (apiKey r))"
    using assms(3,4) by (simp add: configured_def js_get_def)
  then show ?thesis
    using assms(1,2,3) by (cases "loadConfig f") (simp add: deleteDomain_def saveConfig_def)
qed

text \<open>
  Claim C2. For a name that is absent from the domains mapping, \<^verbatim>\<open>deleteDomain\<close> is to
  report that it was not found and leave the file alone. The check reads
  \<^verbatim>\<open>config.domains[domain]\<close>, which also finds what the mapping inherits: for the name
  \<^verbatim>\<open>constructor\<close> and an absent file, the command writes a file and reports that the
  domain has been removed. For every other absent name, and for every name that is
  present, the two lemmas above give the behaviour of the claim.
\<close>

theorem deleteDomain_inherited_name:
  "deleteDomain (no_options\<lparr>domain := Some ''constructor''\<rparr>) Absent =
     (Stored (Document \<lparr>domains = Some []\<rparr>),
      [StoreRead, StoreWrite,
       ConsoleLog (''Domain '' @ quoted ''constructor'' @ '' has been removed from configuration'')])"
  by (simp add: deleteDomain_def no_options_def loadConfig_def read_config_file_def
      empty_config_def configured_def js_get_def object_prototype_names_def saveConfig_def js_delete_def)

section \<open>Properties of the display command\<close>

lemma maskedKey_length: "length (maskedKey key) = (if length key > 8 then 11 else 8)"
  by (simp add: maskedKey_def)

lemma debug_effects:
  "StoreWrite \<notin> set (debug b m v)" "debug False m v = []"
  by (auto simp: debug_def split: option.splits)

lemma display_unfold:
  "display b f =
     (f, debug b ''Loading configuration for display'' None @ snd (loadConfig f) @
       (if loaded_domains f = [] then [ConsoleLog ''No domains are currently configured'']
        else debug b ''Domains found in configuration'' (Some (domains_json (loaded_domains f))) @
             [ConsoleLog ([CHR 0x0A] @ ''Configured Domains:'' @ [CHR 0x0A]),
              ConsoleLog rule_line,
              ConsoleLog ''Domain                          API Key'',
              ConsoleLog rule_line] @
             map (\<lambda>(d, r). ConsoleLog (padEnd 30 d @ '' '' @ maskedKey (apiKey r)))
               (loaded_domains f) @
             [ConsoleLog rule_line,
              ConsoleLog (''Total domains: '' @ dec (length (loaded_domains f)))]))"
  by (cases "loadConfig f")
     (simp add: display_def loaded_domains_def Let_def split: option.splits)

text \<open>
  Claim C9, as amended. \<^verbatim>\<open>display\<close> prints one row for every stored domain, with the
  API key masked: the first four and the last four characters around three dots when
  the key is longer than eight characters, eight asterisks otherwise. With debug mode
  off, two keys longer than eight characters with the same first four and last four
  characters give the same output, so nothing else of a key is shown. With debug mode
  on, the command also prints the domains mapping as it is stored, every key in full.
  In both modes the command never writes the store: the backing file is what it was.
\<close>

theorem display_masks_keys:
  "fst (display b f) = f \<and> StoreWrite \<notin> set (snd (display b f)) \<and>
   (\<forall>d r. (d, r) \<in> set (loaded_domains f) \<longrightarrow>
      ConsoleLog (padEnd 30 d @ '' '' @
        (if length (apiKey r) > 8
         then take 4 (apiKey r) @ ''...'' @ drop (length (apiKey r) - 4) (apiKey r)
         else ''********'')) \<in> set (snd (display b f))) \<and>
   (8 < length key \<and> 8 < length key' \<and> take 4 key = take 4 key' \<and>
    drop (length key - 4) key = drop (length key' - 4) key' \<longrightarrow>
      snd (display False (Stored (Document \<lparr>domains = Some (ps @ (d', Details key) # qs)\<rparr>))) =
      snd (display False (Stored (Document \<lparr>domains = Some (ps @ (d', Details key') # qs)\<rparr>)))) \<and>
   (loaded_domains f \<noteq> [] \<longrightarrow>
      Print (Json (domains_json (loaded_domains f))) \<in> set (snd (display True f)))"
proof -
  obtain es where es: "snd (loadConfig f) = StoreRead # es" "StoreWrite \<notin> set es"
    using loadConfig_effects by blast
  have 1: "fst (display b f) = f" by (simp add: display_unfold)
  have 2: "StoreWrite \<notin> set (snd (display b f))"
    using es by (auto simp: display_unfold debug_effects(1))
  have 3: "ConsoleLog (padEnd 30 d @ '' '' @ maskedKey (apiKey r)) \<in> set (snd (display b f))"
    if "(d, r) \<in> set (loaded_domains f)" for d r
  proof -
    from that have "loaded_domains f \<noteq> []" by auto
    then show ?thesis using that by (force simp: display_unfold)
  qed
  have 4: "snd (display False (Stored (Document \<lparr>domains = Some (ps @ (d', Details key) # qs)\<rparr>))) =
      snd (display False (Stored (Document \<lparr>domains = Some (ps @ (d', Details key') # qs)\<rparr>)))"
    if "8 < length key" "8 < length key'" "take 4 key = take 4 key'"
       "drop (length key - 4) key = drop (length key' - 4) key'"
  proof -
    have "maskedKey key = maskedKey key'" using that by (simp add: maskedKey_def)
    then show ?thesis
      by (simp add: display_unfold debug_effects(2) loaded_domains_def loadConfig_def
          read_config_file_def)
  qed
  have 5: "Print (Json (domains_json (loaded_domains f))) \<in> set (snd (display True f))"
    if "loaded_domains f \<noteq> []"
    using that by (simp add: display_unfold debug_def domains_json_def)
  show ?thesis using 1 2 3 4 5 by (simp add: maskedKey_def)
qed

lemma display_example:
  "display False example_store =
     (example_store,
      [StoreRead, ConsoleLog ([CHR 0x0A] @ ''Configured Domains:'' @ [CHR 0x0A]),
       ConsoleLog rule_line, ConsoleLog ''Domain                          API Key'',
       ConsoleLog rule_line,
       ConsoleLog ''example.com                    abcd...wxyz'',
       ConsoleLog rule_line, ConsoleLog ''Total domains: 1''])"
  by code_simp

theorem display_masks_keys_witness:
  "fst (display False example_store) = example_store \<and>
   StoreWrite \<notin> set (snd (display False example_store)) \<and>
   ConsoleLog ''example.com                    abcd...wxyz''
     \<in> set (snd (display False example_store)) \<and>
   snd (display False
     (Stored (Document \<lparr>domains = Some [(''example.com'', Details ''abcd000000wxyz'')]\<rparr>))) =
   snd (display False example_store) \<and>
   Print (Json (JObj [(''example.com'', JObj [(''apiKey'', JStr ''abcd1234wxyz'')])]))
     \<in> set (snd (display True example_store))"
proof -
  note T = display_masks_keys [of True example_store "''abcd000000wxyz''" "''abcd1234wxyz''" "[]"
        "''example.com''" "[]"]
  have "snd (display False (Stored (Document
            \<lparr>domains = Some ([] @ (''example.com'', Details ''abcd000000wxyz'') # [])\<rparr>))) =
        snd (display False (Stored (Document
            \<lparr>domains = Some ([] @ (''example.com'', Details ''abcd1234wxyz'') # [])\<rparr>)))"
    using T by simp
  moreover have "loaded_domains example_store = [(''example.com'', Details ''abcd1234wxyz'')]"
    by (simp add: loaded_domains_def example_store_def loadConfig_def read_config_file_def)
  moreover from this have "Print (Json (JObj [(''example.com'',
      JObj [(''apiKey'', JStr ''abcd1234wxyz'')])])) \<in> set (snd (display True example_store))"
    using T by (simp add: domains_json_def)
  ultimately show ?thesis
    using display_example by (simp add: example_store_def)
qed

text \<open>
  The claim as it was stated fails in debug mode: the command prints the stored
  mapping with the whole key before the table of masked keys.
\<close>

theorem display_debug_prints_keys:
  "display True example_store =
     (example_store,
      [ConsoleLog ([CHR 0x0A] @ ''=== DEBUG ===''),
       ConsoleLog ''Loading configuration for display'',
       ConsoleLog (''============='' @ [CHR 0x0A]),
       StoreRead,
       ConsoleLog ([CHR 0x0A] @ ''=== DEBUG ===''),
       ConsoleLog ''Domains found in configuration'',
       ConsoleLog ''Data:'',
       Print (Json (JObj [(''example.com'', JObj [(''apiKey'', JStr ''abcd1234wxyz'')])])),
       ConsoleLog (''============='' @ [CHR 0x0A]),
       ConsoleLog ([CHR 0x0A] @ ''Configured Domains:'' @ [CHR 0x0A]),
       ConsoleLog rule_line, ConsoleLog ''Domain                          API Key'',
       ConsoleLog rule_line,
       ConsoleLog ''example.com                    abcd...wxyz'',
       ConsoleLog rule_line, ConsoleLog ''Total domains: 1''])"
  by code_simp

section \<open>Properties of the get command\<close>

text \<open>
  Claim C3, as amended. When more than one of the four resource options is given,
  \<^verbatim>\<open>getDomain\<close> makes no request to the API. Without a domain option it reports the
  missing option and does not read the store. With a domain option it reads the
  configuration store first: when the store holds a record under the domain, it then
  reports the usage error and exits with status 1; when the store holds no record
  under the domain and the domain is not one of the names that every object inherits,
  it reports that the domain was not found and exits with status 1.
\<close>

theorem getDomain_multiple_resources:
  assumes "resourceOptionsCount opts > 1"
  shows "(\<forall>r. ApiCall r \<notin> set (getDomain api opts f)) \<and>
     (missing (domain opts) \<longrightarrow>
        getDomain api opts f = [ConsoleError ''The --domain option is required'', ProcessExit 1]) \<and>
     (\<not> missing (domain opts) \<and> map_of (loaded_domains f) (the (domain opts)) \<noteq> None \<longrightarrow>
        getDomain api opts f = snd (loadConfig f) @ [ConsoleError multiple_error, ProcessExit 1] \<and>
        hd (getDomain api opts f) = StoreRead) \<and>
     (\<not> missing (domain opts) \<and> map_of (loaded_domains f) (the (domain opts)) = None \<and>
      the (domain opts) \<notin> set object_prototype_names \<longrightarrow>
        getDomain api opts f = snd (loadConfig f) @
          [ConsoleError (''Domain '' @ quoted (the (domain opts)) @
             '' not found in configuration. Use '' @ quoted ''cx-cli configure'' @ '' to add it.''),
           ProcessExit 1] \<and>
        hd (getDomain api opts f) = StoreRead)"
proof -
  obtain es where es: "snd (loadConfig f) = StoreRead # es" "\<forall>r. ApiCall r \<notin> set es"
    using loadConfig_effects by blast
  obtain c where lc: "loadConfig f = (c, StoreRead # es)"
    using es(1) by (cases "loadConfig f") simp
  have stored: "configured c d \<noteq> None" if "map_of (loaded_domains f) d \<noteq> None" for d
    using that by (auto simp: configured_iff loaded_domains_def lc split: option.splits)
  have absent: "configured c d = None"
    if "map_of (loaded_domains f) d = None" "d \<notin> set object_prototype_names" for d
    using that by (auto simp: configured_iff loaded_domains_def lc split: option.splits)
  show ?thesis
  proof (cases "missing (domain opts)")
    case True
    then show ?thesis by (simp add: getDomain_def)
  next
    case False
    show ?thesis
    proof (cases "configured c (the (domain opts))")
      case None
      then show ?thesis
        using False assms es(2) stored [of "the (domain opts)"]
        by (auto simp: getDomain_def lc Let_def)
    next
      case (Some k)
      then show ?thesis
        using False assms es(2) absent [of "the (domain opts)"]
        by (auto simp: getDomain_def lc Let_def multiple_error_def)
    qed
  qed
qed

theorem getDomain_multiple_resources_witness:
  "1 < resourceOptionsCount
         (no_options\<lparr>domain := Some ''example.com'', application := Given ''a1'', dnid := Bare\<rparr>) \<and>
   getDomain unreachable
     (no_options\<lparr>domain := Some ''example.com'', application := Given ''a1'', dnid := Bare\<rparr>)
     example_store = [StoreRead, ConsoleError multiple_error, ProcessExit 1] \<and>
   getDomain unreachable
     (no_options\<lparr>domain := Some ''other.net'', application := Given ''a1'', dnid := Bare\<rparr>)
     example_store =
     [StoreRead,
      ConsoleError (''Domain '' @ quoted ''other.net'' @ '' not found in configuration. Use '' @
        quoted ''cx-cli configure'' @ '' to add it.''),
      ProcessExit 1] \<and>
   getDomain unreachable (no_options\<lparr>application := Given ''a1'', dnid := Bare\<rparr>) example_store =
     [ConsoleError ''The --domain option is required'', ProcessExit 1]"
proof -
  have two: "1 < resourceOptionsCount (no_options\<lparr>domain := n, application := Given ''a1'',
      dnid := Bare\<rparr>)" for n
    by (simp add: resourceOptionsCount_def no_options_def)
  have none: "no_options\<lparr>application := Given ''a1'', dnid := Bare\<rparr> =
      no_options\<lparr>domain := None, application := Given ''a1'', dnid := Bare\<rparr>"
    by (simp add: no_options_def)
  have l: "loaded_domains example_store = [(''example.com'', Details ''abcd1234wxyz'')]"
      "snd (loadConfig example_store) = [StoreRead]"
    by (simp_all add: loaded_domains_def example_store_def loadConfig_def read_config_file_def)
  show ?thesis
    using two
      getDomain_multiple_resources [OF two, of unreachable "Some ''example.com''" example_store]
      getDomain_multiple_resources [OF two, of unreachable "Some ''other.net''" example_store]
      getDomain_multiple_resources [OF two, of unreachable None example_store]
    by (simp add: none l missing_def object_prototype_names_def)
qed

text \<open>
  The claim as it was stated fails: the command below is given two resource options,
  and the store is read before the usage error is reported.
\<close>

theorem getDomain_reads_store_first:
  "resourceOptionsCount
     (no_options\<lparr>domain := Some ''example.com'', subscriber := Bare, trunk := Given ''t1''\<rparr>) = 2 \<and>
   getDomain unreachable
     (no_options\<lparr>domain := Some ''example.com'', subscriber := Bare, trunk := Given ''t1''\<rparr>)
     example_store = [StoreRead, ConsoleError multiple_error, ProcessExit 1]"
  by (simp add: getDomain_def resourceOptionsCount_def no_options_def missing_def example_store_def
      loadConfig_def read_config_file_def configured_def js_get_def)

section \<open>Properties of the timestamp repair\<close>

lemma matches_length: "matches p s \<Longrightarrow> length s = length p"
  by (induction p s rule: matches.induct) auto

lemma dateString_cases:
  "(matches hour_pattern s \<longrightarrow> dateString s = s @ '':00:00.000Z'') \<and>
   (matches minute_pattern s \<longrightarrow> dateString s = s @ '':00.000Z'') \<and>
   (matches second_pattern s \<longrightarrow> dateString s = s @ ''.000Z'') \<and>
   (length s \<noteq> 13 \<and> length s \<noteq> 16 \<and> length s \<noteq> 19 \<longrightarrow> dateString s = s)"
  using matches_length [of hour_pattern s] matches_length [of minute_pattern s]
    matches_length [of second_pattern s]
  by (auto simp: dateString_def hour_pattern_def minute_pattern_def second_pattern_def)

lemma map_of_clone_members: "map_of (clone_members D ps) k = map_option (clone D k) (map_of ps k)"
  by (induction ps) auto

lemma length_clone_elems: "length (clone_elems D i xs) = length xs"
  by (induction xs arbitrary: i) auto

lemma nth_clone_elems:
  "n < length xs \<Longrightarrow> clone_elems D i xs ! n = clone D (dec (i + n)) (xs ! n)"
proof (induction xs arbitrary: i n)
  case Nil
  then show ?case by simp
next
  case (Cons x xs)
  then show ?case by (cases n) auto
qed

lemma key_of_Cons:
  "key_of k0 (Key k # p) = key_of k p" "key_of k0 (Index i # p) = key_of (dec i) p"
  by (simp_all add: key_of_def)

lemma clone_JStr: "clone D k (JStr s) = JStr (if k = ''timestamp'' \<or> k = ''time'' then repaired D s else s)"
  by (simp add: replacer_def repaired_def split: option.splits)

lemma value_at_clone:
  "value_at (clone D k0 v) p = map_option (clone D (key_of k0 p)) (value_at v p)"
proof (induction p arbitrary: v k0)
  case Nil
  then show ?case by (simp add: key_of_def)
next
  case (Cons s p)
  show ?case
  proof (cases v)
    case (JArr xs)
    then show ?thesis
      using Cons.IH
      by (cases s) (simp_all add: key_of_Cons length_clone_elems nth_clone_elems)
  next
    case (JObj ps)
    then show ?thesis
      using Cons.IH
      by (cases s) (simp_all add: key_of_Cons map_of_clone_members split: option.splits)
  qed (simp_all add: replacer_def split: option.splits)
qed


text \<open>
  Claim C5. The normalizer is the copy \<^verbatim>\<open>JSON.parse(JSON.stringify(sessionInfo, replacer))\<close>
  that \<^verbatim>\<open>formatSessionYaml\<close> makes of the whole document. Wherever the document holds a
  string, at the end of any path through its objects and arrays, the copy holds at the
  same path the repaired string if the last step of the path is the member name
  \<^verbatim>\<open>timestamp\<close> or \<^verbatim>\<open>time\<close>, and the same string otherwise; the copy has a value
  exactly at the paths where the document has one. The repaired string is the full ISO
  form that the runtime writes for the date it reads from the string, after
  \<^verbatim>\<open>:00:00.000Z\<close>, \<^verbatim>\<open>:00.000Z\<close> or \<^verbatim>\<open>.000Z\<close> has been appended to a string cut off
  after the hours, the minutes or the seconds. A complete instant, which is a string
  of 24 characters in the form the runtime writes and so is written back as it is
  read, is unchanged. A string that the runtime does not read as a date is kept as it
  is. The copy is a total function: it returns in every case and raises nothing. The
  witness repairs a timestamp in an array entry and a time in an object nested in that
  entry, leaves the same string under another key alone, and treats the complete
  instant and the string \<^verbatim>\<open>not-a-date\<close> of the claim.
\<close>

theorem clone_repairs_timestamps:
  assumes "value_at doc p = Some (JStr s)"
  shows "value_at (clone D [] doc) p =
           Some (JStr (if key_of [] p = ''timestamp'' \<or> key_of [] p = ''time''
                       then repaired D s else s)) \<and>
         (\<forall>q. (value_at (clone D [] doc) q = None) = (value_at doc q = None)) \<and>
         repaired D s =
           (case date_parse D (dateString s) of Some t \<Rightarrow> toISOString D t | None \<Rightarrow> s) \<and>
         (matches hour_pattern s \<longrightarrow> dateString s = s @ '':00:00.000Z'') \<and>
         (matches minute_pattern s \<longrightarrow> dateString s = s @ '':00.000Z'') \<and>
         (matches second_pattern s \<longrightarrow> dateString s = s @ ''.000Z'') \<and>
         (length s = 24 \<and> date_parse D s = Some t \<and> toISOString D t = s \<longrightarrow> repaired D s = s) \<and>
         (date_parse D (dateString s) = None \<longrightarrow> repaired D s = s)"
proof -
  have 1: "value_at (clone D [] doc) p =
      Some (JStr (if key_of [] p = ''timestamp'' \<or> key_of [] p = ''time''
                  then repaired D s else s))"
    using assms clone_JStr [of D "key_of [] p" s] by (simp add: value_at_clone)
  have 2: "(value_at (clone D [] doc) q = None) = (value_at doc q = None)" for q
    by (simp add: value_at_clone)
  have 3: "dateString s = s" if "length s = 24"
    using that dateString_cases [of s] by simp
  show ?thesis
    using 1 2 3 dateString_cases [of s] by (auto simp: repaired_def)
qed

lemma repaired_examples:
  "repaired iso_date ''2025-04-01T02'' = ''2025-04-01T02:00:00.000Z''"
  "repaired iso_date ''2025-04-01T02:15'' = ''2025-04-01T02:15:00.000Z''"
  "repaired iso_date ''2025-04-01T02:15:30.500Z'' = ''2025-04-01T02:15:30.500Z''"
  "repaired iso_date ''not-a-date'' = ''not-a-date''"
  by code_simp+

theorem clone_repairs_timestamps_witness:
  "value_at (clone iso_date [] nested_session) [Key ''events'', Index 0, Key ''timestamp''] =
     Some (JStr ''2025-04-01T02:00:00.000Z'') \<and>
   value_at (clone iso_date [] nested_session)
       [Key ''events'', Index 0, Key ''detail'', Key ''time''] =
     Some (JStr ''2025-04-01T02:15:00.000Z'') \<and>
   value_at (clone iso_date [] nested_session) [Key ''id''] = Some (JStr ''2025-04-01T02'') \<and>
   value_at (clone iso_date [] (JObj [(''time'', JStr ''2025-04-01T02:15:30.500Z'')]))
       [Key ''time''] = Some (JStr ''2025-04-01T02:15:30.500Z'') \<and>
   value_at (clone iso_date [] (JObj [(''timestamp'', JStr ''not-a-date'')]))
       [Key ''timestamp''] = Some (JStr ''not-a-date'')"
proof -
  have a: "value_at nested_session [Key ''events'', Index 0, Key ''timestamp''] =
      Some (JStr ''2025-04-01T02'')"
    "value_at nested_session [Key ''events'', Index 0, Key ''detail'', Key ''time''] =
      Some (JStr ''2025-04-01T02:15'')"
    "value_at nested_session [Key ''id''] = Some (JStr ''2025-04-01T02'')"
    by (simp_all add: nested_session_def)
  have b: "value_at (JObj [(''time'', JStr ''2025-04-01T02:15:30.500Z'')]) [Key ''time''] =
      Some (JStr ''2025-04-01T02:15:30.500Z'')"
    "value_at (JObj [(''timestamp'', JStr ''not-a-date'')]) [Key ''timestamp''] =
      Some (JStr ''not-a-date'')"
    by simp_all
  show ?thesis
    using clone_repairs_timestamps [OF a(1), of iso_date]
      clone_repairs_timestamps [OF a(2), of iso_date]
      clone_repairs_timestamps [OF a(3), of iso_date]
      clone_repairs_timestamps [OF b(1), of iso_date]
      clone_repairs_timestamps [OF b(2), of iso_date]
    by (simp add: key_of_def repaired_examples)
qed

section \<open>Properties of the sort\<close>

lemma compare_by_timed:
  assumes "time_value D tm a \<noteq> None" "time_value D tm b \<noteq> None"
  shows "compare_by D tm a b = Inr (Some (by_time D tm a - by_time D tm b))"
  using assms
  by (auto simp: compare_by_def time_value_def by_time_def split: sum.splits)

lemma insort_cmp_timed:
  assumes "time_value D tm x \<noteq> None" "list_all (\<lambda>e. time_value D tm e \<noteq> None) ys"
  shows "insort_cmp (compare_by D tm) x ys = Inr (insort_key (by_time D tm) x ys)"
  using assms
  by (induction ys) (auto simp: compare_by_timed)

lemma js_sort_timed:
  assumes "list_all (\<lambda>e. time_value D tm e \<noteq> None) xs"
  shows "js_sort (compare_by D tm) xs = Inr (sort_key (by_time D tm) xs)"
  using assms
proof (induction xs)
  case Nil
  then show ?case by simp
next
  case (Cons x xs)
  then have "list_all (\<lambda>e. time_value D tm e \<noteq> None) (sort_key (by_time D tm) xs)"
    by (simp add: list_all_iff)
  with Cons show ?case
    by (simp add: insort_cmp_timed)
qed

lemma sort_member_timed:
  assumes "list_all (\<lambda>e. time_value D tm e \<noteq> None) xs"
  shows "sort_member (compare_by D tm) (js_define r k (JArr xs)) k =
         Inr (js_define r k (JArr (sort_key (by_time D tm) xs)))"
  using assms by (simp add: sort_member_def js_get_js_define js_sort_timed js_define_twice)

lemma sort_member_other:
  "\<forall>xs. v \<noteq> JArr xs \<Longrightarrow> sort_member cmp (js_define r k v) k = Inr (js_define r k v)"
  by (cases v) (simp_all add: sort_member_def js_get_js_define)

lemma place_settled:
  assumes "k = ''events'' \<longrightarrow> timed D event_time (Some v)"
    and "k = ''log'' \<longrightarrow> timed D log_time (Some v)"
  shows "place D r (k, v) = Inr (js_assign r k (settled D k v))"
proof (cases "k = ''events'' \<or> k = ''log''")
  case False
  then show ?thesis by (auto simp: place_def settled_def split: jval.splits)
next
  case True
  then have d: "js_assign r k w = js_define r k w" for w
    by (auto simp: js_assign_def)
  show ?thesis
  proof (cases "\<exists>xs. v = JArr xs")
    case False
    then have "settled D k v = v" by (auto simp: settled_def split: jval.splits)
    then show ?thesis
      using True False by (auto simp: place_def d sort_member_other)
  next
    case True
    then obtain xs where v: "v = JArr xs" by blast
    show ?thesis
      using assms \<open>k = ''events'' \<or> k = ''log''\<close>
      by (auto simp: place_def d v timed_def settled_def sort_member_timed)
  qed
qed

section \<open>Properties of the reorganizer\<close>

lemma assign_all_simps [simp]:
  "assign_all r [] = r"
  "assign_all r (kv # kvs) = assign_all (js_assign r (fst kv) (snd kv)) kvs"
  by (simp_all add: assign_all_def)

lemma assign_all_append: "assign_all r (xs @ ys) = assign_all (assign_all r xs) ys"
  by (simp add: assign_all_def)

lemma first_pass_split:
  "first_pass es (r, cs) = (assign_all r (simple_entries es), cs @ complex_entries es)"
  by (induction es arbitrary: r cs) (auto simp: simple_entries_def complex_entries_def)

lemma second_pass_settled:
  assumes "list_all (\<lambda>kv. timed D event_time (if fst kv = ''events'' then Some (snd kv) else None) \<and>
                         timed D log_time (if fst kv = ''log'' then Some (snd kv) else None)) kvs"
  shows "second_pass D r kvs = Inr (assign_all r (map (\<lambda>kv. (fst kv, settled D (fst kv) (snd kv))) kvs))"
  using assms
proof (induction kvs arbitrary: r)
  case Nil
  then show ?case by simp
next
  case (Cons kv kvs)
  obtain k v where kv: "kv = (k, v)" by (cases kv)
  have "place D r (k, v) = Inr (js_assign r k (settled D k v))"
    using Cons.prems by (intro place_settled) (auto simp: kv timed_def)
  with Cons show ?case by (simp add: kv)
qed

lemma settled_simple: "\<not> is_complex v \<Longrightarrow> settled D k v = v"
  by (auto simp: settled_def is_complex_def split: jval.splits)

lemma map_of_assign_all_other:
  "k \<notin> fst ` set kvs \<Longrightarrow> map_of (assign_all r kvs) k = map_of r k"
  by (induction kvs arbitrary: r) (auto simp: map_of_js_assign_other)

lemma map_of_assign_all:
  assumes "distinct (map fst kvs)" "(k, v) \<in> set kvs" "k \<noteq> ''__proto__''"
  shows "map_of (assign_all r kvs) k = Some v"
  using assms
proof (induction kvs arbitrary: r)
  case Nil
  then show ?case by simp
next
  case (Cons kv kvs)
  show ?case
  proof (cases "kv = (k, v)")
    case True
    then have "k \<notin> fst ` set kvs" using Cons.prems(1) by auto
    then show ?thesis
      using True Cons.prems(3) by (simp add: map_of_assign_all_other map_of_js_assign)
  next
    case False
    then show ?thesis using Cons by auto
  qed
qed

lemma distinct_regrouped:
  assumes "distinct (map fst ps)"
  shows "distinct (map fst (simple_entries ps @ complex_entries ps))"
proof -
  have "mset (simple_entries ps @ complex_entries ps) = mset ps"
    by (simp add: simple_entries_def complex_entries_def)
  then have "mset (map fst (simple_entries ps @ complex_entries ps)) = mset (map fst ps)"
    by (metis mset_map)
  then show ?thesis using assms by (metis mset_eq_imp_distinct_iff)
qed

lemma reorganize_settled:
  assumes "distinct (map fst ps)"
    and "timed D event_time (map_of ps ''events'')" "timed D log_time (map_of ps ''log'')"
  shows "reorganize D (JObj ps) =
     Inr (assign_all [] (map (\<lambda>kv. (fst kv, settled D (fst kv) (snd kv)))
                            (simple_entries ps @ complex_entries ps)))"
proof -
  have ok: "timed D event_time (if fst kv = ''events'' then Some (snd kv) else None) \<and>
            timed D log_time (if fst kv = ''log'' then Some (snd kv) else None)"
    if "kv \<in> set ps" for kv
  proof -
    have "map_of ps (fst kv) = Some (snd kv)"
      using that assms(1) by (simp add: map_of_eq_Some_iff)
    then show ?thesis using assms(2,3) by (auto simp: timed_def)
  qed
  then have "list_all (\<lambda>kv. timed D event_time (if fst kv = ''events'' then Some (snd kv) else None) \<and>
                         timed D log_time (if fst kv = ''log'' then Some (snd kv) else None))
               (complex_entries ps)"
    by (simp add: list_all_iff complex_entries_def)
  note sp = second_pass_settled [OF this]
  have "map (\<lambda>kv. (fst kv, settled D (fst kv) (snd kv))) (simple_entries ps) = simple_entries ps"
    by (rule map_idI) (auto simp: simple_entries_def settled_simple)
  then show ?thesis
    using first_pass_split [of ps "[]" "[]"]
    by (simp add: reorganize_def sp assign_all_append)
qed


lemma time_value_rules:
  "map_of qs ''timestamp'' = Some t \<Longrightarrow> truthy t \<Longrightarrow>
     time_value D event_time (JObj qs) = new_Date D t"
  "unset (map_of qs ''timestamp'') \<Longrightarrow> time_value D event_time (JObj qs) = Some 0"
  "map_of qs ''timestamp'' = Some t \<Longrightarrow> truthy t \<Longrightarrow>
     time_value D log_time (JObj qs) = new_Date D t"
  "unset (map_of qs ''timestamp'') \<Longrightarrow> map_of qs ''time'' = Some u \<Longrightarrow> truthy u \<Longrightarrow>
     time_value D log_time (JObj qs) = new_Date D u"
  "unset (map_of qs ''timestamp'') \<Longrightarrow> unset (map_of qs ''time'') \<Longrightarrow>
     time_value D log_time (JObj qs) = Some 0"
  by (auto simp: time_value_def event_time_def log_time_def or_else_def unset_def
      split: option.splits)

lemma time_value_primitive:
  "e \<noteq> JNull \<Longrightarrow> \<forall>qs. e \<noteq> JObj qs \<Longrightarrow>
     time_value D event_time e = Some 0 \<and> time_value D log_time e = Some 0"
  by (cases e) (simp_all add: time_value_def event_time_def log_time_def or_else_def)


lemma keys_assign_all_plain:
  assumes "list_all plain_key (map fst kvs)" "distinct (map fst r @ map fst kvs)"
  shows "map fst (assign_all r kvs) = map fst r @ map fst kvs"
  using assms
proof (induction kvs arbitrary: r)
  case Nil
  then show ?case by simp
next
  case (Cons kv kvs)
  have "map fst (js_assign r (fst kv) (snd kv)) = map fst r @ [fst kv]"
    using Cons.prems by (intro keys_assign_plain) auto
  moreover from this have "distinct (map fst (js_assign r (fst kv) (snd kv)) @ map fst kvs)"
    using Cons.prems(2) by auto
  ultimately show ?case
    using Cons.IH [of "js_assign r (fst kv) (snd kv)"] Cons.prems(1) by simp
qed

lemma reorganize_plain_keys:
  assumes "distinct (map fst ps)" "list_all plain_key (map fst ps)"
    and "timed D event_time (map_of ps ''events'')" "timed D log_time (map_of ps ''log'')"
  shows "\<exists>r. reorganize D (JObj ps) = Inr r \<and>
           map fst r = map fst (simple_entries ps) @ map fst (complex_entries ps)"
proof -
  let ?kvs = "map (\<lambda>kv. (fst kv, settled D (fst kv) (snd kv)))
                  (simple_entries ps @ complex_entries ps)"
  have k: "map fst ?kvs = map fst (simple_entries ps) @ map fst (complex_entries ps)"
    by (simp add: comp_def)
  have "list_all plain_key (map fst ?kvs)"
    using assms(2) unfolding k
    by (auto simp: list_all_iff simple_entries_def complex_entries_def)
  moreover have "distinct (map fst [] @ map fst ?kvs)"
    using distinct_regrouped [OF assms(1)] unfolding k by simp
  ultimately have "map fst (assign_all [] ?kvs) = map fst ?kvs"
    using keys_assign_all_plain [of ?kvs "[]"] by simp
  then show ?thesis
    using reorganize_settled [OF assms(1,3,4)] k by simp
qed

lemma reorganize_spec_example:
  "reorganize D (JObj [(''b'', JArr [JNum 1, JNum 2]), (''a'', JNum 5), (''c'', JObj [(''x'', JNum 1)])]) =
   Inr [(''a'', JNum 5), (''b'', JArr [JNum 1, JNum 2]), (''c'', JObj [(''x'', JNum 1)])]"
  by (simp add: reorganize_def is_complex_def place_def js_assign_def js_define_def
      is_array_index_def is_digit_def)

text \<open>
  Claim C6. The reorganizer is to emit every simple key before every complex key, each
  group in its original order. It does so for the document of the specification and,
  by the lemma above, for every document whose keys are plain. It assigns the simple
  members first, but an object enumerates the keys that are array indices before all
  others: in the document \<^verbatim>\<open>{ "1": [1, 2], "a": 5 }\<close> the complex key \<^verbatim>\<open>1\<close> comes out
  before the simple key \<^verbatim>\<open>a\<close>.
\<close>

theorem reorganize_index_key:
  "reorganize D (JObj [(''1'', JArr [JNum 1, JNum 2]), (''a'', JNum 5)]) =
   Inr [(''1'', JArr [JNum 1, JNum 2]), (''a'', JNum 5)]"
  by (simp add: reorganize_def is_complex_def place_def js_assign_def js_define_def
      is_array_index_def is_digit_def num_of_def)

text \<open>
  Claim C7, as amended. Let the keys of the document be distinct, as the keys of an
  object are, and let every entry of the array under \<^verbatim>\<open>events\<close> and of the array under
  \<^verbatim>\<open>log\<close> have a time: the entry is not null and its date is valid. Then the
  reorganizer returns a document in which the array under \<^verbatim>\<open>events\<close> is the stable
  sort of the given one by the time of the entries, ascending, and likewise the array
  under \<^verbatim>\<open>log\<close>. The time of an entry of \<^verbatim>\<open>events\<close> is the date of its \<^verbatim>\<open>timestamp\<close>
  when that member is truthy, and zero, the epoch, when it is missing or falsy. The
  time of an entry of \<^verbatim>\<open>log\<close> is the date of its \<^verbatim>\<open>timestamp\<close> when that is truthy,
  else the date of its \<^verbatim>\<open>time\<close> when that is truthy, else zero. An entry that is
  neither null nor an object has the time zero. The witness sorts the two events of
  the claim and reads the two times of a log entry whose \<^verbatim>\<open>timestamp\<close> is 0.
\<close>

theorem reorganize_sorts_by_time:
  assumes "distinct (map fst ps)"
    and "timed D event_time (map_of ps ''events'')" "timed D log_time (map_of ps ''log'')"
  shows "\<exists>r. reorganize D (JObj ps) = Inr r \<and>
     (\<forall>xs. map_of ps ''events'' = Some (JArr xs) \<longrightarrow>
        (\<exists>ys. map_of r ''events'' = Some (JArr ys) \<and> ys = sort_key (by_time D event_time) xs \<and>
              sorted (map (by_time D event_time) ys) \<and> mset ys = mset xs)) \<and>
     (\<forall>xs. map_of ps ''log'' = Some (JArr xs) \<longrightarrow>
        (\<exists>ys. map_of r ''log'' = Some (JArr ys) \<and> ys = sort_key (by_time D log_time) xs \<and>
              sorted (map (by_time D log_time) ys) \<and> mset ys = mset xs)) \<and>
     (\<forall>qs t. map_of qs ''timestamp'' = Some t \<and> truthy t \<longrightarrow>
        time_value D event_time (JObj qs) = new_Date D t \<and>
        time_value D log_time (JObj qs) = new_Date D t) \<and>
     (\<forall>qs. unset (map_of qs ''timestamp'') \<longrightarrow>
        time_value D event_time (JObj qs) = Some 0) \<and>
     (\<forall>qs u. unset (map_of qs ''timestamp'') \<and> map_of qs ''time'' = Some u \<and> truthy u \<longrightarrow>
        time_value D log_time (JObj qs) = new_Date D u) \<and>
     (\<forall>qs. unset (map_of qs ''timestamp'') \<and> unset (map_of qs ''time'') \<longrightarrow>
        time_value D log_time (JObj qs) = Some 0) \<and>
     (\<forall>e. e \<noteq> JNull \<and> (\<forall>qs. e \<noteq> JObj qs) \<longrightarrow>
        time_value D event_time e = Some 0 \<and> time_value D log_time e = Some 0)"
proof -
  define kvs where "kvs = map (\<lambda>kv. (fst kv, settled D (fst kv) (snd kv)))
                              (simple_entries ps @ complex_entries ps)"
  have r: "reorganize D (JObj ps) = Inr (assign_all [] kvs)"
    unfolding kvs_def by (rule reorganize_settled [OF assms])
  have "map fst kvs = map fst (simple_entries ps @ complex_entries ps)"
    by (simp add: kvs_def comp_def)
  then have dist: "distinct (map fst kvs)"
    using distinct_regrouped [OF assms(1)] by simp
  have stored: "map_of (assign_all [] kvs) k = Some (JArr (sort_key (by_time D tm) xs))"
    if "map_of ps k = Some (JArr xs)" "k \<noteq> ''__proto__''"
       "settled D k (JArr xs) = JArr (sort_key (by_time D tm) xs)" for k xs tm
  proof -
    have "(k, JArr xs) \<in> set ps" using that(1) by (rule map_of_SomeD)
    then have "(k, JArr xs) \<in> set (complex_entries ps)"
      by (simp add: complex_entries_def is_complex_def)
    then have "(k, settled D k (JArr xs)) \<in> set kvs"
      by (force simp: kvs_def)
    then show ?thesis
      using map_of_assign_all [OF dist _ that(2)] that(3) by simp
  qed
  have ev: "map_of (assign_all [] kvs) ''events'' = Some (JArr (sort_key (by_time D event_time) xs))"
    if "map_of ps ''events'' = Some (JArr xs)" for xs
    using stored [OF that, of event_time] by (simp add: settled_def)
  have lg: "map_of (assign_all [] kvs) ''log'' = Some (JArr (sort_key (by_time D log_time) xs))"
    if "map_of ps ''log'' = Some (JArr xs)" for xs
    using stored [OF that, of log_time] by (simp add: settled_def)
  have prim: "time_value D event_time e = Some 0 \<and> time_value D log_time e = Some 0"
    if "e \<noteq> JNull" "\<forall>qs. e \<noteq> JObj qs" for e
    using that by (rule time_value_primitive)
  show ?thesis
    using r ev lg prim by (simp add: time_value_rules)
qed

lemma sorting_examples:
  "time_value iso_date event_time (JObj [(''timestamp'', JStr ''2025-01-01T00:00:00.000Z'')]) = Some 1735689600000"
  "time_value iso_date event_time (JObj [(''timestamp'', JStr ''2025-01-02T00:00:00.000Z'')]) = Some 1735776000000"
  "reorganize iso_date (JObj [(''events'', unsorted_events)]) = Inr [(''events'', sorted_events)]"
  "formatSessionYaml iso_date
     (JObj [(''events'', JArr [JObj [(''timestamp'', JStr ''2025-01-02T00:00:00Z'')],
                               JObj [(''timestamp'', JStr ''2025-01-01T00:00:00Z'')]])]) =
   Inr (Yaml session_title (JObj [(''events'', sorted_events)]))"
  "date_parse iso_date ''2025-01-02T00:00:00.000Z'' = Some 1735776000000"
  by code_simp+

theorem reorganize_sorts_by_time_witness:
  "distinct (map fst [(''events'', unsorted_events)]) \<and>
   timed iso_date event_time (map_of [(''events'', unsorted_events)] ''events'') \<and>
   timed iso_date log_time (map_of [(''events'', unsorted_events)] ''log'') \<and>
   reorganize iso_date (JObj [(''events'', unsorted_events)]) = Inr [(''events'', sorted_events)] \<and>
   sorted (map (by_time iso_date event_time)
     [JObj [(''timestamp'', JStr ''2025-01-01T00:00:00.000Z'')],
      JObj [(''timestamp'', JStr ''2025-01-02T00:00:00.000Z'')]]) \<and>
   time_value iso_date log_time zero_stamped = Some 1735776000000 \<and>
   time_value iso_date event_time zero_stamped = Some 0 \<and>
   formatSessionYaml iso_date
     (JObj [(''events'', JArr [JObj [(''timestamp'', JStr ''2025-01-02T00:00:00Z'')],
                               JObj [(''timestamp'', JStr ''2025-01-01T00:00:00Z'')]])]) =
   Inr (Yaml session_title (JObj [(''events'', sorted_events)]))"
proof -
  have t: "timed iso_date event_time (map_of [(''events'', unsorted_events)] ''events'')"
          "timed iso_date log_time (map_of [(''events'', unsorted_events)] ''log'')"
    by (simp_all add: timed_def unsorted_events_def sorting_examples(1,2))
  have d: "distinct (map fst [(''events'', unsorted_events)])" by simp
  note inst = reorganize_sorts_by_time [OF d t]
  from inst obtain r ys where "reorganize iso_date (JObj [(''events'', unsorted_events)]) = Inr r"
    and "map_of r ''events'' = Some (JArr ys)" and "sorted (map (by_time iso_date event_time) ys)"
    by (auto simp: unsorted_events_def)
  then have s: "sorted (map (by_time iso_date event_time)
     [JObj [(''timestamp'', JStr ''2025-01-01T00:00:00.000Z'')],
      JObj [(''timestamp'', JStr ''2025-01-02T00:00:00.000Z'')]])"
    by (auto simp: sorting_examples(3) sorted_events_def)
  have u: "unset (map_of [(''timestamp'', JNum 0), (''time'', JStr ''2025-01-02T00:00:00.000Z'')]
             ''timestamp'')"
    by (simp add: unset_def)
  from inst have "unset (map_of qs ''timestamp'') \<and> map_of qs ''time'' = Some u \<and> truthy u \<longrightarrow>
        time_value iso_date log_time (JObj qs) = new_Date iso_date u" for qs u
    by blast
  from this [of "[(''timestamp'', JNum 0), (''time'', JStr ''2025-01-02T00:00:00.000Z'')]"
      "JStr ''2025-01-02T00:00:00.000Z''"] u
  have l: "time_value iso_date log_time zero_stamped = Some 1735776000000"
    by (simp add: zero_stamped_def sorting_examples(5))
  from inst have "unset (map_of qs ''timestamp'') \<longrightarrow>
        time_value iso_date event_time (JObj qs) = Some 0" for qs
    by blast
  from this [of "[(''timestamp'', JNum 0), (''time'', JStr ''2025-01-02T00:00:00.000Z'')]"] u
  have e: "time_value iso_date event_time zero_stamped = Some 0"
    by (simp add: zero_stamped_def)
  show ?thesis
    using t d s l e sorting_examples(3,4) by simp
qed

text \<open>
  Claim C7 as first stated sorts the log by \<^verbatim>\<open>timestamp\<close> if it is present. The first
  entry below has the \<^verbatim>\<open>timestamp\<close> 0, which is present and is the epoch, and a
  \<^verbatim>\<open>time\<close> on 2 January 2025; the second has a \<^verbatim>\<open>timestamp\<close> on 1 January 2025. By
  its \<^verbatim>\<open>timestamp\<close> the first entry is the earlier one. The code passes over the 0 and
  sorts the entry by its \<^verbatim>\<open>time\<close>, so the entries change places.
\<close>

theorem reorganize_falsy_timestamp:
  "reorganize iso_date (JObj [(''log'', JArr [zero_stamped, stamped])]) =
     Inr [(''log'', JArr [stamped, zero_stamped])] \<and>
   formatSessionYaml iso_date (JObj [(''log'', JArr [zero_stamped, stamped])]) =
     Inr (Yaml log_title (JObj [(''log'', JArr [stamped, zero_stamped])])) \<and>
   member zero_stamped ''timestamp'' = Inr (Some (JNum 0)) \<and>
   new_Date iso_date (JNum 0) = Some 0 \<and>
   time_value iso_date log_time stamped = Some 1735689600000"
  by code_simp

section \<open>Properties of the formatters\<close>

text \<open>
  Claim C8, as amended. For an absent document, and for every other value that the
  test \<^verbatim>\<open>!data\<close> takes for absent (false, zero, the empty string), \<^verbatim>\<open>formatSessionYaml\<close>
  and \<^verbatim>\<open>formatYaml\<close> return their message "no information available" and raise
  nothing.
\<close>

theorem formatters_on_absent_data:
  assumes "\<not> truthy v"
  shows "formatSessionYaml D v = Inr (Plain ''No session information available'') \<and>
         formatYaml v title = Plain ''No data available''"
  using assms by (simp add: formatSessionYaml_def formatYaml_def)

theorem formatters_on_absent_data_witness:
  "\<not> truthy JNull \<and> \<not> truthy (JStr []) \<and>
   formatSessionYaml iso_date JNull = Inr (Plain ''No session information available'') \<and>
   formatYaml (JStr []) ''Domain Information for example.com'' = Plain ''No data available''"
  using formatters_on_absent_data [of JNull iso_date]
    formatters_on_absent_data [of "JStr []" iso_date "''Domain Information for example.com''"]
  by simp

text \<open>
  The claim as it was stated fails for an empty document: an empty mapping and an empty
  array are rendered under the title like any other document.
\<close>

theorem formatters_on_empty_document:
  "formatSessionYaml iso_date (JObj []) = Inr (Yaml session_title (JObj [])) \<and>
   formatYaml (JObj []) ''Domain Information for example.com'' =
     Yaml ''Domain Information for example.com'' (JObj []) \<and>
   formatYaml (JArr []) ''All Subscribers for Domain example.com'' =
     Yaml ''All Subscribers for Domain example.com'' (JArr [])"
  by (simp add: formatSessionYaml_def formatYaml_def reorganize_def)

section \<open>Properties of the call command\<close>

lemma reorganize_log_only:
  assumes "reorganize D (JObj [(''log'', v)]) = Inr r"
  shows "\<exists>w. r = [(''log'', w)]"
proof -
  have a: "js_assign [] ''log'' v = [(''log'', v)]"
    by (simp add: js_assign_def js_define_def is_array_index_def is_digit_def)
  have b: "js_define [(''log'', u)] ''log'' w = [(''log'', w)]" for u w :: jval
    by (simp add: js_define_def)
  show ?thesis
    using assms
    by (auto simp: reorganize_def place_def Let_def a b sort_member_def js_get_def
        split: if_splits sum.splits jval.splits)
qed

lemma has_log_iff: "has_log (JObj ps) \<longleftrightarrow> (\<exists>l. map_of ps ''log'' = Some l \<and> truthy l)"
  by (auto simp: has_log_def split: option.splits)

text \<open>
  Claim C10, as amended. Let the domain be configured and the API answer with a
  session document. With \<^verbatim>\<open>--log\<close>, when the document has no member \<^verbatim>\<open>log\<close>, or has one
  that is null, false, zero or the empty string, the command prints the warning and
  then exactly what it prints without \<^verbatim>\<open>--log\<close>: the formatted full document. When
  the member \<^verbatim>\<open>log\<close> holds any other value, the command formats the document that has
  this member only, and what is rendered then has the single key \<^verbatim>\<open>log\<close>, under the
  title of the log view.
\<close>

theorem getCallInfo_log_only:
  assumes "\<not> missing (domain opts)" "\<not> missing (session opts)"
    and "configured (fst (loadConfig f)) (the (domain opts)) = Some key"
    and "api (SessionInfo (the (domain opts)) (the (session opts)) key) = Inr (JObj ps)"
    and "showLogOnly opts"
  shows "getCallInfo D api opts f =
           snd (loadConfig f) @
           ApiCall (SessionInfo (the (domain opts)) (the (session opts)) key) #
           (case map_of ps ''log'' of
              None \<Rightarrow> ConsoleLog log_warning # print_session D (JObj ps)
            | Some l \<Rightarrow>
                if truthy l then print_session D (JObj [(''log'', l)])
                else ConsoleLog log_warning # print_session D (JObj ps)) \<and>
         getCallInfo D api (opts\<lparr>showLogOnly := False\<rparr>) f =
           snd (loadConfig f) @
           ApiCall (SessionInfo (the (domain opts)) (the (session opts)) key) #
           print_session D (JObj ps) \<and>
         (\<forall>l y. truthy l \<and> formatSessionYaml D (JObj [(''log'', l)]) = Inr y \<longrightarrow>
            (\<exists>w. y = Yaml log_title (JObj [(''log'', w)])))"
proof -
  obtain c es where lc: "loadConfig f = (c, es)" by (cases "loadConfig f")
  have 1: "getCallInfo D api opts f =
           snd (loadConfig f) @
           ApiCall (SessionInfo (the (domain opts)) (the (session opts)) key) #
           (case map_of ps ''log'' of
              None \<Rightarrow> ConsoleLog log_warning # print_session D (JObj ps)
            | Some l \<Rightarrow>
                if truthy l then print_session D (JObj [(''log'', l)])
                else ConsoleLog log_warning # print_session D (JObj ps))"
    using assms by (auto simp: getCallInfo_def lc Let_def split: option.splits)
  have 2: "getCallInfo D api (opts\<lparr>showLogOnly := False\<rparr>) f =
           snd (loadConfig f) @
           ApiCall (SessionInfo (the (domain opts)) (the (session opts)) key) #
           print_session D (JObj ps)"
    using assms by (simp add: getCallInfo_def lc Let_def)
  have 3: "\<exists>w. y = Yaml log_title (JObj [(''log'', w)])"
    if tl: "truthy l" and fy: "formatSessionYaml D (JObj [(''log'', l)]) = Inr y" for l y
  proof -
    have t: "has_log (JObj [(''log'', l)])" using tl by (simp add: has_log_iff)
    obtain r where r: "reorganize D (clone D [] (JObj [(''log'', l)])) = Inr r"
        "y = Yaml log_title (JObj r)"
      using fy t by (auto simp: formatSessionYaml_def split: sum.splits)
    from r(1) obtain w where "r = [(''log'', w)]"
      using reorganize_log_only [of D "clone D ''log'' l" r] by auto
    with r(2) show ?thesis by simp
  qed
  show ?thesis using 1 2 3 by blast
qed

lemma log_examples:
  "print_session iso_date
     (JObj [(''log'', JArr [JObj [(''time'', JStr ''2025-04-01T03'')],
                            JObj [(''timestamp'', JStr ''2025-04-01T02'')]])]) =
   [Print (Yaml log_title
      (JObj [(''log'', JArr [JObj [(''timestamp'', JStr ''2025-04-01T02:00:00.000Z'')],
                             JObj [(''time'', JStr ''2025-04-01T03:00:00.000Z'')]])]))]"
  "configured (fst (loadConfig example_store)) ''example.com'' = Some (Some ''abcd1234wxyz'')"
  "snd (loadConfig example_store) = [StoreRead]"
  by code_simp+

theorem getCallInfo_log_only_witness:
  "\<not> missing (domain log_options) \<and> \<not> missing (session log_options) \<and> showLogOnly log_options \<and>
   getCallInfo iso_date logged_api log_options example_store =
     [StoreRead, ApiCall (SessionInfo ''example.com'' ''s1'' (Some ''abcd1234wxyz'')),
      Print (Yaml log_title
        (JObj [(''log'', JArr [JObj [(''timestamp'', JStr ''2025-04-01T02:00:00.000Z'')],
                               JObj [(''time'', JStr ''2025-04-01T03:00:00.000Z'')]])]))]"
proof -
  have o: "\<not> missing (domain log_options)" "\<not> missing (session log_options)"
    "showLogOnly log_options" "the (domain log_options) = ''example.com''"
    "the (session log_options) = ''s1''"
    by (simp_all add: log_options_def no_options_def missing_def)
  have c: "configured (fst (loadConfig example_store)) (the (domain log_options)) =
      Some (Some ''abcd1234wxyz'')"
    by (simp add: o(4) log_examples(2))
  have a: "logged_api (SessionInfo (the (domain log_options)) (the (session log_options))
      (Some ''abcd1234wxyz'')) =
      Inr (JObj [(''id'', JNum 7),
           (''log'', JArr [JObj [(''time'', JStr ''2025-04-01T03'')],
                           JObj [(''timestamp'', JStr ''2025-04-01T02'')]])])"
    by (simp add: logged_api_def logged_session_def)
  show ?thesis
    using getCallInfo_log_only [where api = logged_api and opts = log_options
        and f = example_store and D = iso_date, OF o(1) o(2) c a o(3)] o
    by (simp add: log_examples)
qed

text \<open>
  The claim as it was stated fails for a member \<^verbatim>\<open>log\<close> that is present and null: the
  command warns and renders the whole document, with both of its keys.
\<close>

theorem getCallInfo_null_log:
  "getCallInfo iso_date null_log_api log_options example_store =
   [StoreRead, ApiCall (SessionInfo ''example.com'' ''s1'' (Some ''abcd1234wxyz'')),
    ConsoleLog log_warning,
    Print (Yaml session_title (JObj [(''id'', JNum 7), (''log'', JNull)]))]"
  by code_simp

end
